theory Spec2Isabelle
  imports Main "HOL-Library.AList"
begin

section \<open>The capability index of \<^verbatim>\<open>capabilities/server.py\<close>\<close>

text \<open>
  The module keeps three dictionaries, one per kind of capability specification
  (interfaces, providers, semantic interfaces), fills them from the files found by
  discovery, and answers queries over them. This theory embeds class
  \<^verbatim>\<open>CapabilityIndex\<close> function by function and proves the properties of
  the index.
\<close>

subsection \<open>Python dictionaries\<close>

text \<open>
  A \<^verbatim>\<open>dict\<close> is an association list with at most one entry per key.
  \<^verbatim>\<open>k in d\<close> is \<open>dict_contains\<close>, \<^verbatim>\<open>d[k] = v\<close> is
  \<open>dict_setitem\<close> (the entry of an existing key is replaced in place, a new key
  is appended), \<^verbatim>\<open>d[k]\<close> is \<open>dict_getitem\<close> (\<open>None\<close> where Python
  raises \<^verbatim>\<open>KeyError\<close>) and \<^verbatim>\<open>d.values()\<close> is \<open>dict_values\<close>.
  The order of the list is the order of insertion; the properties below speak of the
  set of keys and of the set of values only.
\<close>

type_synonym ('k, 'v) dict = "('k \<times> 'v) list"

definition dict_keys :: "('k, 'v) dict \<Rightarrow> 'k set" where
  "dict_keys d = set (map fst d)"

definition dict_contains :: "'k \<Rightarrow> ('k, 'v) dict \<Rightarrow> bool" where
  "dict_contains k d = (k \<in> set (map fst d))"

definition dict_setitem :: "'k \<Rightarrow> 'v \<Rightarrow> ('k, 'v) dict \<Rightarrow> ('k, 'v) dict" where
  "dict_setitem k v d = AList.update k v d"

definition dict_getitem :: "('k, 'v) dict \<Rightarrow> 'k \<Rightarrow> 'v option" where
  "dict_getitem d k = map_of d k"

definition dict_values :: "('k, 'v) dict \<Rightarrow> 'v list" where
  "dict_values d = map snd d"

subsection \<open>Parsed specifications\<close>

text \<open>
  The objects built by \<^verbatim>\<open>capabilities.specs\<close>. The index reads the attribute
  \<^verbatim>\<open>name\<close> of each, \<^verbatim>\<open>implements\<close> of a provider and
  \<^verbatim>\<open>redefines\<close> of a semantic interface; every record can carry more.
\<close>

record interface =
  name :: string

record provider =
  name :: string
  implements :: string

record semantic_interface =
  name :: string
  redefines :: string

subsection \<open>Discovery\<close>

text \<open>
  The functions imported from module \<^verbatim>\<open>discovery\<close> and from
  \<^verbatim>\<open>capabilities.specs\<close> are not part of \<^verbatim>\<open>server.py\<close>: they are
  parameters of the model, collected in one record. \<open>'pkgs\<close> is what
  \<^verbatim>\<open>_build_package_dict\<close> returns and \<open>'caps\<close> what
  \<^verbatim>\<open>_build_file_index\<close> returns. A package path is \<^verbatim>\<open>None\<close> or a
  list of directories.
\<close>

type_synonym package_path = "string list option"

record ('pkgs, 'caps) discovery =
  build_package_dict :: "package_path \<Rightarrow> 'pkgs"
  build_file_index :: "'pkgs \<Rightarrow> 'caps"
  list_interface_files :: "'caps \<Rightarrow> string list"
  list_provider_files :: "'caps \<Rightarrow> string list"
  list_semantic_interface_files :: "'caps \<Rightarrow> string list"
  capability_interface_from_file_path :: "string \<Rightarrow> interface"
  capability_provider_from_file_path :: "string \<Rightarrow> provider"
  semantic_capability_interface_from_file_path :: "string \<Rightarrow> semantic_interface"

subsection \<open>The index\<close>

text \<open>
  The four attributes of a \<^verbatim>\<open>CapabilityIndex\<close> object (the source writes
  them with a leading underscore), and the lines the object has printed so far.
\<close>

record CapabilityIndex =
  ros_package_path :: package_path
  interfaces :: "(string, interface) dict"
  providers :: "(string, provider) dict"
  semantic_interfaces :: "(string, semantic_interface) dict"
  stdout :: "string list"

text \<open>Python's truth value of a package path: \<^verbatim>\<open>None\<close> and the empty list are false.\<close>

fun truthy :: "package_path \<Rightarrow> bool" where
  "truthy None = False"
| "truthy (Some []) = False"
| "truthy (Some (x # xs)) = True"

definition print :: "string \<Rightarrow> CapabilityIndex \<Rightarrow> CapabilityIndex" where
  "print line self = self\<lparr>stdout := stdout self @ [line]\<rparr>"

definition initialize_capabilities :: "CapabilityIndex \<Rightarrow> CapabilityIndex" where
  "initialize_capabilities self =
     self\<lparr>interfaces := [], providers := [], semantic_interfaces := []\<rparr>"

text \<open>
  \<^verbatim>\<open>_check_name\<close> returns \<^verbatim>\<open>error == False\<close> and prints one line when
  the name is taken. The result is the pair of the returned boolean and the object
  after printing.
\<close>

definition check_name :: "CapabilityIndex \<Rightarrow> string \<Rightarrow> string \<Rightarrow> bool \<times> CapabilityIndex" where
  "check_name self nm type_name =
     (let (error, self') =
        (if dict_contains nm (interfaces self) then
           (True, print (type_name @ '' '' @ nm @ '' already declared'') self)
         else if dict_contains nm (providers self) then
           (True, print (type_name @ '' '' @ nm @ '' collides with a provider name'') self)
         else if dict_contains nm (semantic_interfaces self) then
           (True, print (type_name @ '' '' @ nm @ '' collides with a semantic_interface name'') self)
         else (False, self))
      in (error = False, self'))"

text \<open>The three loops of \<^verbatim>\<open>load_from_ros_package_path\<close>, one per kind.\<close>

fun load_interfaces ::
  "('pkgs, 'caps) discovery \<Rightarrow> string list \<Rightarrow> CapabilityIndex \<Rightarrow> CapabilityIndex" where
  "load_interfaces D [] self = self"
| "load_interfaces D (i # files) self =
     (let interface = capability_interface_from_file_path D i;
          (ok, self') = check_name self (interface.name interface) ''interface''
      in if \<not> ok then load_interfaces D files self'
         else load_interfaces D files
                (self'\<lparr>interfaces :=
                   dict_setitem (interface.name interface) interface (interfaces self')\<rparr>))"

fun load_providers ::
  "('pkgs, 'caps) discovery \<Rightarrow> string list \<Rightarrow> CapabilityIndex \<Rightarrow> CapabilityIndex" where
  "load_providers D [] self = self"
| "load_providers D (i # files) self =
     (let provider = capability_provider_from_file_path D i;
          (ok, self') = check_name self (provider.name provider) ''provider''
      in if \<not> ok then load_providers D files self'
         else load_providers D files
                (self'\<lparr>providers :=
                   dict_setitem (provider.name provider) provider (providers self')\<rparr>))"

fun load_semantic_interfaces ::
  "('pkgs, 'caps) discovery \<Rightarrow> string list \<Rightarrow> CapabilityIndex \<Rightarrow> CapabilityIndex" where
  "load_semantic_interfaces D [] self = self"
| "load_semantic_interfaces D (i # files) self =
     (let semantic_interface = semantic_capability_interface_from_file_path D i;
          (ok, self') =
            check_name self (semantic_interface.name semantic_interface) ''semantic_interface''
      in if \<not> ok then load_semantic_interfaces D files self'
         else load_semantic_interfaces D files
                (self'\<lparr>semantic_interfaces :=
                   dict_setitem (semantic_interface.name semantic_interface) semantic_interface
                     (semantic_interfaces self')\<rparr>))"

text \<open>
  \<^verbatim>\<open>load_from_ros_package_path(self, ros_package_path=None)\<close>: a false
  argument is replaced by the saved path, a true one is saved; the dictionaries are
  cleared; discovery runs; the three loops fill the dictionaries.
\<close>

definition load_from_ros_package_path ::
  "('pkgs, 'caps) discovery \<Rightarrow> package_path \<Rightarrow> CapabilityIndex \<Rightarrow> CapabilityIndex" where
  "load_from_ros_package_path D ros_package_path_arg self =
     (let (path, self1) =
            (if \<not> truthy ros_package_path_arg then (ros_package_path self, self)
             else (ros_package_path_arg, self\<lparr>ros_package_path := ros_package_path_arg\<rparr>));
          self2 = initialize_capabilities self1;
          pkgs = build_package_dict D path;
          capabilities = build_file_index D pkgs;
          self3 = load_interfaces D (list_interface_files D capabilities) self2;
          self4 = load_providers D (list_provider_files D capabilities) self3
      in load_semantic_interfaces D (list_semantic_interface_files D capabilities) self4)"

text \<open>
  \<^verbatim>\<open>__init__(self, ros_package_path=None)\<close>: saves the path, creates the
  empty dictionaries and loads. A new object has printed nothing.
\<close>

definition init :: "('pkgs, 'caps) discovery \<Rightarrow> package_path \<Rightarrow> CapabilityIndex" where
  "init D ros_package_path_arg =
     load_from_ros_package_path D ros_package_path_arg
       (initialize_capabilities
          \<lparr>ros_package_path = ros_package_path_arg, interfaces = [], providers = [],
           semantic_interfaces = [], stdout = []\<rparr>)"

subsection \<open>Queries\<close>

definition get_interfaces :: "CapabilityIndex \<Rightarrow> interface list" where
  "get_interfaces self = map (\<lambda>i. i) (dict_values (interfaces self))"

definition get_providers :: "CapabilityIndex \<Rightarrow> string \<Rightarrow> provider list" where
  "get_providers self interface_name =
     filter (\<lambda>p. implements p = interface_name) (dict_values (providers self))"

definition get_semantic_interfaces :: "CapabilityIndex \<Rightarrow> string \<Rightarrow> semantic_interface list" where
  "get_semantic_interfaces self interface_name =
     filter (\<lambda>p. redefines p = interface_name) (dict_values (semantic_interfaces self))"

subsection \<open>The unimplemented operations\<close>

text \<open>
  The three operations consist of the statement \<^verbatim>\<open>raise NotImplemented\<close>.
  \<^verbatim>\<open>NotImplemented\<close> is Python's builtin constant for binary special methods,
  not the exception class \<^verbatim>\<open>NotImplementedError\<close>. The statement
  \<^verbatim>\<open>raise\<close> accepts an exception class or instance and raises
  \<^verbatim>\<open>TypeError\<close> for any other object.
\<close>

datatype exception = NotImplementedError | TypeError

datatype pyobject = NotImplemented | ExceptionClass exception

fun py_raise :: "pyobject \<Rightarrow> exception + 'a" where
  "py_raise (ExceptionClass e) = Inl e"
| "py_raise NotImplemented = Inl TypeError"

definition verify_tree :: "CapabilityIndex \<Rightarrow> exception + unit" where
  "verify_tree self = py_raise NotImplemented"

definition view_capabilities_as_dot :: "CapabilityIndex \<Rightarrow> bool \<Rightarrow> exception + unit" where
  "view_capabilities_as_dot self with_errors = py_raise NotImplemented"

definition advertize_services :: "CapabilityIndex \<Rightarrow> exception + unit" where
  "advertize_services self = py_raise NotImplemented"

subsection \<open>Vocabulary of the properties\<close>

text \<open>
  The path a call of \<^verbatim>\<open>load_from_ros_package_path\<close> hands to discovery, and
  the parsed specifications discovery yields for a path, kind by kind, in the order
  in which the loops process them.
\<close>

definition effective_path :: "package_path \<Rightarrow> CapabilityIndex \<Rightarrow> package_path" where
  "effective_path ros_package_path_arg self =
     (if truthy ros_package_path_arg then ros_package_path_arg else ros_package_path self)"

definition discovered_interfaces ::
  "('pkgs, 'caps) discovery \<Rightarrow> package_path \<Rightarrow> interface list" where
  "discovered_interfaces D path =
     map (capability_interface_from_file_path D)
       (list_interface_files D (build_file_index D (build_package_dict D path)))"

definition discovered_providers ::
  "('pkgs, 'caps) discovery \<Rightarrow> package_path \<Rightarrow> provider list" where
  "discovered_providers D path =
     map (capability_provider_from_file_path D)
       (list_provider_files D (build_file_index D (build_package_dict D path)))"

definition discovered_semantic_interfaces ::
  "('pkgs, 'caps) discovery \<Rightarrow> package_path \<Rightarrow> semantic_interface list" where
  "discovered_semantic_interfaces D path =
     map (semantic_capability_interface_from_file_path D)
       (list_semantic_interface_files D (build_file_index D (build_package_dict D path)))"

text \<open>Two objects with the same saved path and the same three dictionaries.\<close>

definition same_index :: "CapabilityIndex \<Rightarrow> CapabilityIndex \<Rightarrow> bool" where
  "same_index a b =
     (ros_package_path a = ros_package_path b \<and> interfaces a = interfaces b \<and>
      providers a = providers b \<and> semantic_interfaces a = semantic_interfaces b)"

text \<open>No name is a key twice, within one dictionary or across the three.\<close>

definition names_unique :: "CapabilityIndex \<Rightarrow> bool" where
  "names_unique self =
     distinct (map fst (interfaces self) @ map fst (providers self) @
               map fst (semantic_interfaces self))"

text \<open>Every entry of every dictionary is stored under the name of its value.\<close>

definition keyed_by_name :: "CapabilityIndex \<Rightarrow> bool" where
  "keyed_by_name self =
     (list_all (\<lambda>(k, v). interface.name v = k) (interfaces self) \<and>
      list_all (\<lambda>(k, v). provider.name v = k) (providers self) \<and>
      list_all (\<lambda>(k, v). semantic_interface.name v = k) (semantic_interfaces self))"

text \<open>The lines printed between an earlier and a later state of the object.\<close>

definition printed :: "CapabilityIndex \<Rightarrow> CapabilityIndex \<Rightarrow> string list" where
  "printed before after = drop (length (stdout before)) (stdout after)"

subsection \<open>A discovery to run the index on\<close>

text \<open>
  Two interface files, four provider files and two semantic interface files. Provider
  file \<open>p2\<close> declares the name of an interface, \<open>p3\<close> the name of the
  provider of \<open>p1\<close>, and semantic interface file \<open>s1\<close> the name of the provider
  of \<open>p4\<close>.
\<close>

definition example_discovery :: "(package_path, package_path) discovery" where
  "example_discovery =
     \<lparr>build_package_dict = (\<lambda>path. path),
      build_file_index = (\<lambda>pkgs. pkgs),
      list_interface_files = (\<lambda>caps. [''i1'', ''i2'']),
      list_provider_files = (\<lambda>caps. [''p1'', ''p2'', ''p3'', ''p4'']),
      list_semantic_interface_files = (\<lambda>caps. [''s1'', ''s2'']),
      capability_interface_from_file_path =
        (\<lambda>f. \<lparr>interface.name = (if f = ''i1'' then ''Minimal'' else ''Nav'')\<rparr>),
      capability_provider_from_file_path =
        (\<lambda>f. if f = ''p1'' then \<lparr>provider.name = ''P1'', implements = ''Minimal''\<rparr>
             else if f = ''p2'' then \<lparr>provider.name = ''Minimal'', implements = ''Minimal''\<rparr>
             else if f = ''p3'' then \<lparr>provider.name = ''P1'', implements = ''Nav''\<rparr>
             else \<lparr>provider.name = ''P2'', implements = ''Minimal''\<rparr>),
      semantic_capability_interface_from_file_path =
        (\<lambda>f. if f = ''s1'' then \<lparr>semantic_interface.name = ''P2'', redefines = ''Minimal''\<rparr>
             else \<lparr>semantic_interface.name = ''S1'', redefines = ''Minimal''\<rparr>)\<rparr>"

definition example_index :: CapabilityIndex where
  "example_index = init example_discovery (Some [''/pkgs/a''])"

text \<open>
  A discovery with two records of one name in every kind: both interface files
  declare \<open>Minimal\<close>, the provider files \<open>p1\<close> and \<open>p2\<close> declare \<open>P1\<close>,
  \<open>p3\<close> and \<open>p4\<close> declare \<open>Minimal\<close>, and both semantic interface files
  declare \<open>S1\<close>. It is loaded into an object that has printed nothing.
\<close>

definition duplicates_discovery :: "(package_path, package_path) discovery" where
  "duplicates_discovery =
     \<lparr>build_package_dict = (\<lambda>path. path),
      build_file_index = (\<lambda>pkgs. pkgs),
      list_interface_files = (\<lambda>caps. [''i1'', ''i2'']),
      list_provider_files = (\<lambda>caps. [''p1'', ''p2'', ''p3'', ''p4'']),
      list_semantic_interface_files = (\<lambda>caps. [''s1'', ''s2'']),
      capability_interface_from_file_path = (\<lambda>f. \<lparr>interface.name = ''Minimal''\<rparr>),
      capability_provider_from_file_path =
        (\<lambda>f. if f = ''p1'' then \<lparr>provider.name = ''P1'', implements = ''Minimal''\<rparr>
             else if f = ''p2'' then \<lparr>provider.name = ''P1'', implements = ''Nav''\<rparr>
             else if f = ''p3'' then \<lparr>provider.name = ''Minimal'', implements = ''Minimal''\<rparr>
             else \<lparr>provider.name = ''Minimal'', implements = ''Nav''\<rparr>),
      semantic_capability_interface_from_file_path =
        (\<lambda>f. if f = ''s1'' then \<lparr>semantic_interface.name = ''S1'', redefines = ''Minimal''\<rparr>
             else \<lparr>semantic_interface.name = ''S1'', redefines = ''Nav''\<rparr>)\<rparr>"

definition fresh_index :: CapabilityIndex where
  "fresh_index =
     \<lparr>ros_package_path = Some [''/pkgs/a''], interfaces = [], providers = [],
      semantic_interfaces = [], stdout = []\<rparr>"

definition duplicates_index :: CapabilityIndex where
  "duplicates_index =
     load_from_ros_package_path duplicates_discovery (Some [''/pkgs/a'']) fresh_index"

text \<open>A discovery of one provider, which implements an interface nobody declares.\<close>

definition dangling_discovery :: "(package_path, package_path) discovery" where
  "dangling_discovery =
     \<lparr>build_package_dict = (\<lambda>path. path),
      build_file_index = (\<lambda>pkgs. pkgs),
      list_interface_files = (\<lambda>caps. []),
      list_provider_files = (\<lambda>caps. [''p1'']),
      list_semantic_interface_files = (\<lambda>caps. []),
      capability_interface_from_file_path = (\<lambda>f. \<lparr>interface.name = ''Minimal''\<rparr>),
      capability_provider_from_file_path =
        (\<lambda>f. \<lparr>provider.name = ''P1'', implements = ''NoSuchInterface''\<rparr>),
      semantic_capability_interface_from_file_path =
        (\<lambda>f. \<lparr>semantic_interface.name = ''S1'', redefines = ''Minimal''\<rparr>)\<rparr>"

section \<open>Lemmas about the dictionaries and the loops\<close>

lemma update_new: "k \<notin> fst ` set al \<Longrightarrow> AList.update k v al = al @ [(k, v)]"
  by (induction al) auto

lemma dict_setitem_new:
  "\<not> dict_contains k d \<Longrightarrow> dict_setitem k v d = d @ [(k, v)]"
  by (simp add: dict_contains_def dict_setitem_def update_new)

lemma dict_contains_map_of: "dict_contains k d \<longleftrightarrow> map_of d k \<noteq> None"
  by (simp add: dict_contains_def map_of_eq_None_iff)

lemma check_name_fst:
  "fst (check_name self nm t) \<longleftrightarrow>
     \<not> dict_contains nm (interfaces self) \<and> \<not> dict_contains nm (providers self) \<and>
     \<not> dict_contains nm (semantic_interfaces self)"
  by (simp add: check_name_def)

lemma check_name_snd [simp]:
  "interfaces (snd (check_name self nm t)) = interfaces self"
  "providers (snd (check_name self nm t)) = providers self"
  "semantic_interfaces (snd (check_name self nm t)) = semantic_interfaces self"
  "ros_package_path (snd (check_name self nm t)) = ros_package_path self"
  by (simp_all add: check_name_def print_def)

lemma load_interfaces_Cons:
  "load_interfaces D (i # files) self =
     (let r = capability_interface_from_file_path D i;
          c = check_name self (interface.name r) ''interface''
      in if fst c
         then load_interfaces D files
                ((snd c)\<lparr>interfaces := interfaces self @ [(interface.name r, r)]\<rparr>)
         else load_interfaces D files (snd c))"
  by (simp add: Let_def case_prod_beta check_name_fst dict_setitem_new)

lemma load_providers_Cons:
  "load_providers D (i # files) self =
     (let r = capability_provider_from_file_path D i;
          c = check_name self (provider.name r) ''provider''
      in if fst c
         then load_providers D files
                ((snd c)\<lparr>providers := providers self @ [(provider.name r, r)]\<rparr>)
         else load_providers D files (snd c))"
  by (simp add: Let_def case_prod_beta check_name_fst dict_setitem_new)

lemma load_semantic_interfaces_Cons:
  "load_semantic_interfaces D (i # files) self =
     (let r = semantic_capability_interface_from_file_path D i;
          c = check_name self (semantic_interface.name r) ''semantic_interface''
      in if fst c
         then load_semantic_interfaces D files
                ((snd c)\<lparr>semantic_interfaces :=
                   semantic_interfaces self @ [(semantic_interface.name r, r)]\<rparr>)
         else load_semantic_interfaces D files (snd c))"
  by (simp add: Let_def case_prod_beta check_name_fst dict_setitem_new)

declare load_interfaces.simps(2) [simp del]
declare load_providers.simps(2) [simp del]
declare load_semantic_interfaces.simps(2) [simp del]

lemma check_name_same:
  "same_index a b \<Longrightarrow> fst (check_name a nm t) = fst (check_name b nm t)"
  by (simp add: same_index_def check_name_fst)

lemma same_index_snd_check:
  "same_index a b \<Longrightarrow> same_index (snd (check_name a nm t)) (snd (check_name b nm t'))"
  by (simp add: same_index_def)

lemma names_unique_check:
  "names_unique (snd (check_name self nm t)) = names_unique self"
  by (simp add: names_unique_def)

lemma keyed_by_name_check:
  "keyed_by_name (snd (check_name self nm t)) = keyed_by_name self"
  by (simp add: keyed_by_name_def)

lemma load_interfaces_fields [simp]:
  "providers (load_interfaces D fs self) = providers self"
  "semantic_interfaces (load_interfaces D fs self) = semantic_interfaces self"
  "ros_package_path (load_interfaces D fs self) = ros_package_path self"
  by (induction fs arbitrary: self; simp add: load_interfaces_Cons Let_def)+

lemma load_interfaces_same:
  "same_index a b \<Longrightarrow> same_index (load_interfaces D fs a) (load_interfaces D fs b)"
proof (induction fs arbitrary: a b)
  case Nil
  then show ?case by simp
next
  case (Cons i fs)
  let ?r = "capability_interface_from_file_path D i"
  let ?n = "interface.name ?r"
  have ok: "fst (check_name a ?n ''interface'') = fst (check_name b ?n ''interface'')"
    using Cons.prems by (rule check_name_same)
  have s1: "same_index (snd (check_name a ?n ''interface'')) (snd (check_name b ?n ''interface''))"
    using Cons.prems by (rule same_index_snd_check)
  have s2: "same_index
      ((snd (check_name a ?n ''interface''))\<lparr>interfaces := interfaces a @ [(?n, ?r)]\<rparr>)
      ((snd (check_name b ?n ''interface''))\<lparr>interfaces := interfaces b @ [(?n, ?r)]\<rparr>)"
    using Cons.prems by (simp add: same_index_def)
  show ?case
    using ok Cons.IH [OF s1] Cons.IH [OF s2]
    by (simp add: load_interfaces_Cons Let_def)
qed

lemma load_interfaces_append:
  "load_interfaces D (xs @ ys) self = load_interfaces D ys (load_interfaces D xs self)"
  by (induction xs arbitrary: self) (simp_all add: load_interfaces_Cons Let_def)

lemma load_interfaces_unique:
  "names_unique self \<Longrightarrow> names_unique (load_interfaces D fs self)"
proof (induction fs arbitrary: self)
  case Nil
  then show ?case by simp
next
  case (Cons i fs)
  let ?r = "capability_interface_from_file_path D i"
  let ?c = "check_name self (interface.name ?r) ''interface''"
  have a: "names_unique (snd ?c)"
    using Cons.prems by (simp add: names_unique_check)
  have b: "names_unique ((snd ?c)\<lparr>interfaces := interfaces self @ [(interface.name ?r, ?r)]\<rparr>)"
    if "fst ?c"
    using that Cons.prems
    by (auto simp: names_unique_def check_name_fst dict_contains_def)
  show ?case
    using Cons.IH [OF a] Cons.IH [OF b]
    by (simp add: load_interfaces_Cons Let_def)
qed

lemma load_interfaces_keyed:
  "keyed_by_name self \<Longrightarrow> keyed_by_name (load_interfaces D fs self)"
proof (induction fs arbitrary: self)
  case Nil
  then show ?case by simp
next
  case (Cons i fs)
  let ?r = "capability_interface_from_file_path D i"
  let ?c = "check_name self (interface.name ?r) ''interface''"
  have a: "keyed_by_name (snd ?c)"
    using Cons.prems by (simp add: keyed_by_name_check)
  have b: "keyed_by_name ((snd ?c)\<lparr>interfaces := interfaces self @ [(interface.name ?r, ?r)]\<rparr>)"
    using Cons.prems by (simp add: keyed_by_name_def)
  show ?case
    using Cons.IH [OF a] Cons.IH [OF b]
    by (simp add: load_interfaces_Cons Let_def)
qed

lemma load_interfaces_lookup:
  "map_of (interfaces (load_interfaces D fs self)) n =
     (case map_of (interfaces self) n of
        Some v \<Rightarrow> Some v
      | None \<Rightarrow>
          if dict_contains n (providers self) \<or> dict_contains n (semantic_interfaces self)
          then None
          else find (\<lambda>r. interface.name r = n) (map (capability_interface_from_file_path D) fs))"
proof (induction fs arbitrary: self)
  case Nil
  then show ?case by (simp split: option.splits add: dict_contains_map_of)
next
  case (Cons i fs)
  show ?case
    by (auto simp: load_interfaces_Cons Let_def Cons.IH check_name_fst dict_contains_map_of
        split: option.splits)
qed

lemma load_providers_fields [simp]:
  "interfaces (load_providers D fs self) = interfaces self"
  "semantic_interfaces (load_providers D fs self) = semantic_interfaces self"
  "ros_package_path (load_providers D fs self) = ros_package_path self"
  by (induction fs arbitrary: self; simp add: load_providers_Cons Let_def)+

lemma load_providers_same:
  "same_index a b \<Longrightarrow> same_index (load_providers D fs a) (load_providers D fs b)"
proof (induction fs arbitrary: a b)
  case Nil
  then show ?case by simp
next
  case (Cons i fs)
  let ?r = "capability_provider_from_file_path D i"
  let ?n = "provider.name ?r"
  have ok: "fst (check_name a ?n ''provider'') = fst (check_name b ?n ''provider'')"
    using Cons.prems by (rule check_name_same)
  have s1: "same_index (snd (check_name a ?n ''provider'')) (snd (check_name b ?n ''provider''))"
    using Cons.prems by (rule same_index_snd_check)
  have s2: "same_index
      ((snd (check_name a ?n ''provider''))\<lparr>providers := providers a @ [(?n, ?r)]\<rparr>)
      ((snd (check_name b ?n ''provider''))\<lparr>providers := providers b @ [(?n, ?r)]\<rparr>)"
    using Cons.prems by (simp add: same_index_def)
  show ?case
    using ok Cons.IH [OF s1] Cons.IH [OF s2]
    by (simp add: load_providers_Cons Let_def)
qed

lemma load_providers_append:
  "load_providers D (xs @ ys) self = load_providers D ys (load_providers D xs self)"
  by (induction xs arbitrary: self) (simp_all add: load_providers_Cons Let_def)

lemma load_providers_unique:
  "names_unique self \<Longrightarrow> names_unique (load_providers D fs self)"
proof (induction fs arbitrary: self)
  case Nil
  then show ?case by simp
next
  case (Cons i fs)
  let ?r = "capability_provider_from_file_path D i"
  let ?c = "check_name self (provider.name ?r) ''provider''"
  have a: "names_unique (snd ?c)"
    using Cons.prems by (simp add: names_unique_check)
  have b: "names_unique ((snd ?c)\<lparr>providers := providers self @ [(provider.name ?r, ?r)]\<rparr>)"
    if "fst ?c"
    using that Cons.prems
    by (auto simp: names_unique_def check_name_fst dict_contains_def)
  show ?case
    using Cons.IH [OF a] Cons.IH [OF b]
    by (simp add: load_providers_Cons Let_def)
qed

lemma load_providers_keyed:
  "keyed_by_name self \<Longrightarrow> keyed_by_name (load_providers D fs self)"
proof (induction fs arbitrary: self)
  case Nil
  then show ?case by simp
next
  case (Cons i fs)
  let ?r = "capability_provider_from_file_path D i"
  let ?c = "check_name self (provider.name ?r) ''provider''"
  have a: "keyed_by_name (snd ?c)"
    using Cons.prems by (simp add: keyed_by_name_check)
  have b: "keyed_by_name ((snd ?c)\<lparr>providers := providers self @ [(provider.name ?r, ?r)]\<rparr>)"
    using Cons.prems by (simp add: keyed_by_name_def)
  show ?case
    using Cons.IH [OF a] Cons.IH [OF b]
    by (simp add: load_providers_Cons Let_def)
qed

lemma load_providers_lookup:
  "map_of (providers (load_providers D fs self)) n =
     (case map_of (providers self) n of
        Some v \<Rightarrow> Some v
      | None \<Rightarrow>
          if dict_contains n (interfaces self) \<or> dict_contains n (semantic_interfaces self)
          then None
          else find (\<lambda>r. provider.name r = n) (map (capability_provider_from_file_path D) fs))"
proof (induction fs arbitrary: self)
  case Nil
  then show ?case by (simp split: option.splits add: dict_contains_map_of)
next
  case (Cons i fs)
  show ?case
    by (auto simp: load_providers_Cons Let_def Cons.IH check_name_fst dict_contains_map_of
        split: option.splits)
qed

lemma load_semantic_interfaces_fields [simp]:
  "interfaces (load_semantic_interfaces D fs self) = interfaces self"
  "providers (load_semantic_interfaces D fs self) = providers self"
  "ros_package_path (load_semantic_interfaces D fs self) = ros_package_path self"
  by (induction fs arbitrary: self; simp add: load_semantic_interfaces_Cons Let_def)+

lemma load_semantic_interfaces_same:
  "same_index a b \<Longrightarrow> same_index (load_semantic_interfaces D fs a) (load_semantic_interfaces D fs b)"
proof (induction fs arbitrary: a b)
  case Nil
  then show ?case by simp
next
  case (Cons i fs)
  let ?r = "semantic_capability_interface_from_file_path D i"
  let ?n = "semantic_interface.name ?r"
  have ok: "fst (check_name a ?n ''semantic_interface'') = fst (check_name b ?n ''semantic_interface'')"
    using Cons.prems by (rule check_name_same)
  have s1: "same_index (snd (check_name a ?n ''semantic_interface'')) (snd (check_name b ?n ''semantic_interface''))"
    using Cons.prems by (rule same_index_snd_check)
  have s2: "same_index
      ((snd (check_name a ?n ''semantic_interface''))\<lparr>semantic_interfaces := semantic_interfaces a @ [(?n, ?r)]\<rparr>)
      ((snd (check_name b ?n ''semantic_interface''))\<lparr>semantic_interfaces := semantic_interfaces b @ [(?n, ?r)]\<rparr>)"
    using Cons.prems by (simp add: same_index_def)
  show ?case
    using ok Cons.IH [OF s1] Cons.IH [OF s2]
    by (simp add: load_semantic_interfaces_Cons Let_def)
qed

lemma load_semantic_interfaces_append:
  "load_semantic_interfaces D (xs @ ys) self = load_semantic_interfaces D ys (load_semantic_interfaces D xs self)"
  by (induction xs arbitrary: self) (simp_all add: load_semantic_interfaces_Cons Let_def)

lemma load_semantic_interfaces_unique:
  "names_unique self \<Longrightarrow> names_unique (load_semantic_interfaces D fs self)"
proof (induction fs arbitrary: self)
  case Nil
  then show ?case by simp
next
  case (Cons i fs)
  let ?r = "semantic_capability_interface_from_file_path D i"
  let ?c = "check_name self (semantic_interface.name ?r) ''semantic_interface''"
  have a: "names_unique (snd ?c)"
    using Cons.prems by (simp add: names_unique_check)
  have b: "names_unique ((snd ?c)\<lparr>semantic_interfaces := semantic_interfaces self @ [(semantic_interface.name ?r, ?r)]\<rparr>)"
    if "fst ?c"
    using that Cons.prems
    by (auto simp: names_unique_def check_name_fst dict_contains_def)
  show ?case
    using Cons.IH [OF a] Cons.IH [OF b]
    by (simp add: load_semantic_interfaces_Cons Let_def)
qed

lemma load_semantic_interfaces_keyed:
  "keyed_by_name self \<Longrightarrow> keyed_by_name (load_semantic_interfaces D fs self)"
proof (induction fs arbitrary: self)
  case Nil
  then show ?case by simp
next
  case (Cons i fs)
  let ?r = "semantic_capability_interface_from_file_path D i"
  let ?c = "check_name self (semantic_interface.name ?r) ''semantic_interface''"
  have a: "keyed_by_name (snd ?c)"
    using Cons.prems by (simp add: keyed_by_name_check)
  have b: "keyed_by_name ((snd ?c)\<lparr>semantic_interfaces := semantic_interfaces self @ [(semantic_interface.name ?r, ?r)]\<rparr>)"
    using Cons.prems by (simp add: keyed_by_name_def)
  show ?case
    using Cons.IH [OF a] Cons.IH [OF b]
    by (simp add: load_semantic_interfaces_Cons Let_def)
qed

lemma load_semantic_interfaces_lookup:
  "map_of (semantic_interfaces (load_semantic_interfaces D fs self)) n =
     (case map_of (semantic_interfaces self) n of
        Some v \<Rightarrow> Some v
      | None \<Rightarrow>
          if dict_contains n (interfaces self) \<or> dict_contains n (providers self)
          then None
          else find (\<lambda>r. semantic_interface.name r = n) (map (semantic_capability_interface_from_file_path D) fs))"
proof (induction fs arbitrary: self)
  case Nil
  then show ?case by (simp split: option.splits add: dict_contains_map_of)
next
  case (Cons i fs)
  show ?case
    by (auto simp: load_semantic_interfaces_Cons Let_def Cons.IH check_name_fst dict_contains_map_of
        split: option.splits)
qed

section \<open>Lemmas about a whole load\<close>

lemma load_unfold:
  "load_from_ros_package_path D arg self =
     load_semantic_interfaces D
       (list_semantic_interface_files D
          (build_file_index D (build_package_dict D (effective_path arg self))))
       (load_providers D
          (list_provider_files D
             (build_file_index D (build_package_dict D (effective_path arg self))))
          (load_interfaces D
             (list_interface_files D
                (build_file_index D (build_package_dict D (effective_path arg self))))
             (initialize_capabilities (self\<lparr>ros_package_path := effective_path arg self\<rparr>))))"
  by (simp add: load_from_ros_package_path_def effective_path_def Let_def)

lemma initialize_capabilities_fields [simp]:
  "interfaces (initialize_capabilities self) = []"
  "providers (initialize_capabilities self) = []"
  "semantic_interfaces (initialize_capabilities self) = []"
  "ros_package_path (initialize_capabilities self) = ros_package_path self"
  by (simp_all add: initialize_capabilities_def)

lemma load_path: "ros_package_path (load_from_ros_package_path D arg self) = effective_path arg self"
  by (simp add: load_unfold)

lemma load_interfaces_of:
  "map_of (interfaces (load_from_ros_package_path D arg self)) n =
     find (\<lambda>r. interface.name r = n) (discovered_interfaces D (effective_path arg self))"
  by (simp add: load_unfold load_interfaces_lookup dict_contains_def discovered_interfaces_def)

lemma load_providers_of:
  "map_of (providers (load_from_ros_package_path D arg self)) n =
     (if find (\<lambda>r. interface.name r = n) (discovered_interfaces D (effective_path arg self)) \<noteq> None
      then None
      else find (\<lambda>r. provider.name r = n) (discovered_providers D (effective_path arg self)))"
  by (simp add: load_unfold load_providers_lookup load_interfaces_lookup dict_contains_map_of
      dict_contains_def discovered_interfaces_def discovered_providers_def)

lemma load_semantic_interfaces_of:
  "map_of (semantic_interfaces (load_from_ros_package_path D arg self)) n =
     (if find (\<lambda>r. interface.name r = n) (discovered_interfaces D (effective_path arg self)) \<noteq> None
         \<or> find (\<lambda>r. provider.name r = n) (discovered_providers D (effective_path arg self)) \<noteq> None
      then None
      else find (\<lambda>r. semantic_interface.name r = n)
             (discovered_semantic_interfaces D (effective_path arg self)))"
  by (auto simp: load_unfold load_semantic_interfaces_lookup load_providers_lookup
      load_interfaces_lookup dict_contains_map_of dict_contains_def
      discovered_interfaces_def discovered_providers_def discovered_semantic_interfaces_def)

lemma load_unique: "names_unique (load_from_ros_package_path D arg self)"
  unfolding load_unfold
  by (intro load_semantic_interfaces_unique load_providers_unique load_interfaces_unique)
     (simp add: names_unique_def)

lemma load_keyed: "keyed_by_name (load_from_ros_package_path D arg self)"
  unfolding load_unfold
  by (intro load_semantic_interfaces_keyed load_providers_keyed load_interfaces_keyed)
     (simp add: keyed_by_name_def)

lemma load_same:
  assumes "effective_path arg a = effective_path arg' b"
  shows "same_index (load_from_ros_package_path D arg a) (load_from_ros_package_path D arg' b)"
  unfolding load_unfold assms
  by (intro load_semantic_interfaces_same load_providers_same load_interfaces_same)
     (simp add: same_index_def)

lemma find_name_None: "find (\<lambda>r. f r = n) xs = None \<longleftrightarrow> n \<notin> f ` set xs"
  by (auto simp: find_None_iff)

lemma example_index_value:
  "example_index =
     \<lparr>ros_package_path = Some [''/pkgs/a''],
      interfaces = [(''Minimal'', \<lparr>interface.name = ''Minimal''\<rparr>),
                    (''Nav'', \<lparr>interface.name = ''Nav''\<rparr>)],
      providers = [(''P1'', \<lparr>provider.name = ''P1'', implements = ''Minimal''\<rparr>),
                   (''P2'', \<lparr>provider.name = ''P2'', implements = ''Minimal''\<rparr>)],
      semantic_interfaces =
        [(''S1'', \<lparr>semantic_interface.name = ''S1'', redefines = ''Minimal''\<rparr>)],
      stdout = [''provider Minimal already declared'',
                ''provider P1 collides with a provider name'',
                ''semantic_interface P2 collides with a provider name'']\<rparr>"
  by (simp add: example_index_def init_def load_from_ros_package_path_def example_discovery_def
      initialize_capabilities_def Let_def load_interfaces_Cons load_providers_Cons
      load_semantic_interfaces_Cons check_name_def print_def dict_contains_def)

lemma names_unique_disjoint:
  "names_unique s \<Longrightarrow>
   dict_keys (interfaces s) \<inter> dict_keys (providers s) = {} \<and>
   dict_keys (interfaces s) \<inter> dict_keys (semantic_interfaces s) = {} \<and>
   dict_keys (providers s) \<inter> dict_keys (semantic_interfaces s) = {}"
  by (auto simp: names_unique_def dict_keys_def)

lemma init_is_load:
  "init D arg = load_from_ros_package_path D arg
     (initialize_capabilities
        \<lparr>ros_package_path = arg, interfaces = [], providers = [],
         semantic_interfaces = [], stdout = []\<rparr>)"
  by (simp add: init_def)

lemma keyed_by_name_getitem:
  assumes "keyed_by_name s"
  shows "dict_getitem (interfaces s) n = Some e \<Longrightarrow> interface.name e = n"
    and "dict_getitem (providers s) n = Some p \<Longrightarrow> provider.name p = n"
    and "dict_getitem (semantic_interfaces s) n = Some q \<Longrightarrow> semantic_interface.name q = n"
  using assms
  by (auto simp: keyed_by_name_def dict_getitem_def list_all_iff dest!: map_of_SomeD)

lemma find_name_Some:
  "n \<in> f ` set xs \<Longrightarrow> \<exists>r\<in>set xs. f r = n \<and> find (\<lambda>r. f r = n) xs = Some r"
  by (induction xs) auto

lemma find_name_ex: "(\<exists>y. find (\<lambda>r. f r = n) xs = Some y) \<longleftrightarrow> n \<in> f ` set xs"
  using find_name_None [of f n xs] by auto

lemma same_index_after_check: "same_index (snd (check_name a nm t)) a"
  by (simp add: same_index_def)

lemma load_interfaces_skip:
  assumes "\<not> fst (check_name (load_interfaces D xs self)
                   (interface.name (capability_interface_from_file_path D i)) ''interface'')"
  shows "same_index (load_interfaces D (xs @ i # ys) self) (load_interfaces D (xs @ ys) self)"
  using assms
  by (simp add: load_interfaces_append load_interfaces_Cons Let_def
      load_interfaces_same same_index_after_check)

lemma load_providers_skip:
  assumes "\<not> fst (check_name (load_providers D xs self)
                   (provider.name (capability_provider_from_file_path D i)) ''provider'')"
  shows "same_index (load_providers D (xs @ i # ys) self) (load_providers D (xs @ ys) self)"
  using assms
  by (simp add: load_providers_append load_providers_Cons Let_def
      load_providers_same same_index_after_check)

lemma load_semantic_interfaces_skip:
  assumes "\<not> fst (check_name (load_semantic_interfaces D xs self)
                   (semantic_interface.name (semantic_capability_interface_from_file_path D i))
                   ''semantic_interface'')"
  shows "same_index (load_semantic_interfaces D (xs @ i # ys) self)
           (load_semantic_interfaces D (xs @ ys) self)"
  using assms
  by (simp add: load_semantic_interfaces_append load_semantic_interfaces_Cons Let_def
      load_semantic_interfaces_same same_index_after_check)

lemma load_contains_interface:
  "dict_contains n (interfaces (load_from_ros_package_path D arg self)) \<longleftrightarrow>
     n \<in> interface.name ` set (discovered_interfaces D (effective_path arg self))"
  by (simp add: dict_contains_map_of load_interfaces_of find_name_None)

lemma load_contains_provider:
  "dict_contains n (providers (load_from_ros_package_path D arg self)) \<longleftrightarrow>
     n \<notin> interface.name ` set (discovered_interfaces D (effective_path arg self)) \<and>
     n \<in> provider.name ` set (discovered_providers D (effective_path arg self))"
  by (simp add: dict_contains_map_of load_providers_of find_name_None find_name_ex)

lemma load_contains_semantic_interface:
  "dict_contains n (semantic_interfaces (load_from_ros_package_path D arg self)) \<longleftrightarrow>
     n \<notin> interface.name ` set (discovered_interfaces D (effective_path arg self)) \<and>
     n \<notin> provider.name ` set (discovered_providers D (effective_path arg self)) \<and>
     n \<in> semantic_interface.name `
           set (discovered_semantic_interfaces D (effective_path arg self))"
  by (simp add: dict_contains_map_of load_semantic_interfaces_of find_name_None find_name_ex)

lemma effective_path_after_load:
  "effective_path None (load_from_ros_package_path D arg self) = effective_path arg self"
  "effective_path arg (load_from_ros_package_path D arg self) = effective_path arg self"
  by (simp_all add: effective_path_def load_path)

lemma truthy_iff: "truthy arg \<longleftrightarrow> arg \<noteq> None \<and> arg \<noteq> Some []"
  by (cases arg rule: truthy.cases) simp_all

section \<open>Lemmas about the printed lines\<close>

lemma check_name_stdout:
  "stdout (snd (check_name a nm t)) =
     stdout a @
       (if dict_contains nm (interfaces a) then [t @ '' '' @ nm @ '' already declared'']
        else if dict_contains nm (providers a)
          then [t @ '' '' @ nm @ '' collides with a provider name'']
        else if dict_contains nm (semantic_interfaces a)
          then [t @ '' '' @ nm @ '' collides with a semantic_interface name'']
        else [])"
  by (simp add: check_name_def print_def)

lemma check_name_extends: "\<exists>ys. stdout (snd (check_name a nm t)) = stdout a @ ys"
  by (simp add: check_name_stdout)

lemma printed_append: "stdout b = stdout a @ ys \<Longrightarrow> printed a b = ys"
  by (simp add: printed_def)

lemma load_interfaces_stdout: "\<exists>ys. stdout (load_interfaces D fs a) = stdout a @ ys"
proof (induction fs arbitrary: a)
  case Nil
  then show ?case by simp
next
  case (Cons i fs)
  let ?r = "capability_interface_from_file_path D i"
  let ?c = "check_name a (interface.name ?r) ''interface''"
  obtain zs where z: "stdout (snd ?c) = stdout a @ zs"
    using check_name_extends by blast
  obtain ys where y: "stdout (load_interfaces D fs (snd ?c)) = stdout (snd ?c) @ ys"
    using Cons.IH by blast
  obtain ys' where y': "stdout (load_interfaces D fs
        ((snd ?c)\<lparr>interfaces := interfaces a @ [(interface.name ?r, ?r)]\<rparr>)) =
      stdout ((snd ?c)\<lparr>interfaces := interfaces a @ [(interface.name ?r, ?r)]\<rparr>) @ ys'"
    using Cons.IH by blast
  show ?case
    using z y y' by (simp add: load_interfaces_Cons Let_def)
qed

lemma load_interfaces_printed_at:
  "set (printed (load_interfaces D xs a)
          (snd (check_name (load_interfaces D xs a) (interface.name (capability_interface_from_file_path D i)) ''interface'')))
     \<subseteq> set (printed a (load_interfaces D (xs @ i # ys) a))"
proof -
  let ?st = "load_interfaces D xs a"
  let ?r = "capability_interface_from_file_path D i"
  let ?c = "check_name ?st (interface.name ?r) ''interface''"
  let ?x = "if fst ?c then (snd ?c)\<lparr>interfaces := interfaces ?st @ [(interface.name ?r, ?r)]\<rparr>
            else snd ?c"
  obtain u where u: "stdout ?st = stdout a @ u"
    using load_interfaces_stdout by blast
  obtain v where v: "stdout (snd ?c) = stdout ?st @ v"
    using check_name_extends by blast
  have x: "stdout ?x = stdout (snd ?c)"
    by simp
  obtain w where w: "stdout (load_interfaces D ys ?x) = stdout ?x @ w"
    using load_interfaces_stdout by blast
  have e: "load_interfaces D (xs @ i # ys) a = load_interfaces D ys ?x"
    by (simp add: load_interfaces_append load_interfaces_Cons Let_def)
  have "printed ?st (snd ?c) = v"
    using v by (rule printed_append)
  moreover have "printed a (load_interfaces D (xs @ i # ys) a) = u @ v @ w"
    using u v w x e by (simp add: printed_def)
  ultimately show ?thesis
    by auto
qed

lemma load_interfaces_printed_nth:
  assumes "k < length fs"
  shows "set (printed (load_interfaces D (take k fs) a)
            (snd (check_name (load_interfaces D (take k fs) a)
                   (interface.name (capability_interface_from_file_path D (fs ! k))) ''interface'')))
         \<subseteq> set (printed a (load_interfaces D fs a))"
  using load_interfaces_printed_at [of D "take k fs" a "fs ! k" "drop (Suc k) fs"] assms
  by (simp add: id_take_nth_drop [symmetric])

lemma load_providers_stdout: "\<exists>ys. stdout (load_providers D fs a) = stdout a @ ys"
proof (induction fs arbitrary: a)
  case Nil
  then show ?case by simp
next
  case (Cons i fs)
  let ?r = "capability_provider_from_file_path D i"
  let ?c = "check_name a (provider.name ?r) ''provider''"
  obtain zs where z: "stdout (snd ?c) = stdout a @ zs"
    using check_name_extends by blast
  obtain ys where y: "stdout (load_providers D fs (snd ?c)) = stdout (snd ?c) @ ys"
    using Cons.IH by blast
  obtain ys' where y': "stdout (load_providers D fs
        ((snd ?c)\<lparr>providers := providers a @ [(provider.name ?r, ?r)]\<rparr>)) =
      stdout ((snd ?c)\<lparr>providers := providers a @ [(provider.name ?r, ?r)]\<rparr>) @ ys'"
    using Cons.IH by blast
  show ?case
    using z y y' by (simp add: load_providers_Cons Let_def)
qed

lemma load_providers_printed_at:
  "set (printed (load_providers D xs a)
          (snd (check_name (load_providers D xs a) (provider.name (capability_provider_from_file_path D i)) ''provider'')))
     \<subseteq> set (printed a (load_providers D (xs @ i # ys) a))"
proof -
  let ?st = "load_providers D xs a"
  let ?r = "capability_provider_from_file_path D i"
  let ?c = "check_name ?st (provider.name ?r) ''provider''"
  let ?x = "if fst ?c then (snd ?c)\<lparr>providers := providers ?st @ [(provider.name ?r, ?r)]\<rparr>
            else snd ?c"
  obtain u where u: "stdout ?st = stdout a @ u"
    using load_providers_stdout by blast
  obtain v where v: "stdout (snd ?c) = stdout ?st @ v"
    using check_name_extends by blast
  have x: "stdout ?x = stdout (snd ?c)"
    by simp
  obtain w where w: "stdout (load_providers D ys ?x) = stdout ?x @ w"
    using load_providers_stdout by blast
  have e: "load_providers D (xs @ i # ys) a = load_providers D ys ?x"
    by (simp add: load_providers_append load_providers_Cons Let_def)
  have "printed ?st (snd ?c) = v"
    using v by (rule printed_append)
  moreover have "printed a (load_providers D (xs @ i # ys) a) = u @ v @ w"
    using u v w x e by (simp add: printed_def)
  ultimately show ?thesis
    by auto
qed

lemma load_providers_printed_nth:
  assumes "k < length fs"
  shows "set (printed (load_providers D (take k fs) a)
            (snd (check_name (load_providers D (take k fs) a)
                   (provider.name (capability_provider_from_file_path D (fs ! k))) ''provider'')))
         \<subseteq> set (printed a (load_providers D fs a))"
  using load_providers_printed_at [of D "take k fs" a "fs ! k" "drop (Suc k) fs"] assms
  by (simp add: id_take_nth_drop [symmetric])

lemma load_semantic_interfaces_stdout: "\<exists>ys. stdout (load_semantic_interfaces D fs a) = stdout a @ ys"
proof (induction fs arbitrary: a)
  case Nil
  then show ?case by simp
next
  case (Cons i fs)
  let ?r = "semantic_capability_interface_from_file_path D i"
  let ?c = "check_name a (semantic_interface.name ?r) ''semantic_interface''"
  obtain zs where z: "stdout (snd ?c) = stdout a @ zs"
    using check_name_extends by blast
  obtain ys where y: "stdout (load_semantic_interfaces D fs (snd ?c)) = stdout (snd ?c) @ ys"
    using Cons.IH by blast
  obtain ys' where y': "stdout (load_semantic_interfaces D fs
        ((snd ?c)\<lparr>semantic_interfaces := semantic_interfaces a @ [(semantic_interface.name ?r, ?r)]\<rparr>)) =
      stdout ((snd ?c)\<lparr>semantic_interfaces := semantic_interfaces a @ [(semantic_interface.name ?r, ?r)]\<rparr>) @ ys'"
    using Cons.IH by blast
  show ?case
    using z y y' by (simp add: load_semantic_interfaces_Cons Let_def)
qed

lemma load_semantic_interfaces_printed_at:
  "set (printed (load_semantic_interfaces D xs a)
          (snd (check_name (load_semantic_interfaces D xs a) (semantic_interface.name (semantic_capability_interface_from_file_path D i)) ''semantic_interface'')))
     \<subseteq> set (printed a (load_semantic_interfaces D (xs @ i # ys) a))"
proof -
  let ?st = "load_semantic_interfaces D xs a"
  let ?r = "semantic_capability_interface_from_file_path D i"
  let ?c = "check_name ?st (semantic_interface.name ?r) ''semantic_interface''"
  let ?x = "if fst ?c then (snd ?c)\<lparr>semantic_interfaces := semantic_interfaces ?st @ [(semantic_interface.name ?r, ?r)]\<rparr>
            else snd ?c"
  obtain u where u: "stdout ?st = stdout a @ u"
    using load_semantic_interfaces_stdout by blast
  obtain v where v: "stdout (snd ?c) = stdout ?st @ v"
    using check_name_extends by blast
  have x: "stdout ?x = stdout (snd ?c)"
    by simp
  obtain w where w: "stdout (load_semantic_interfaces D ys ?x) = stdout ?x @ w"
    using load_semantic_interfaces_stdout by blast
  have e: "load_semantic_interfaces D (xs @ i # ys) a = load_semantic_interfaces D ys ?x"
    by (simp add: load_semantic_interfaces_append load_semantic_interfaces_Cons Let_def)
  have "printed ?st (snd ?c) = v"
    using v by (rule printed_append)
  moreover have "printed a (load_semantic_interfaces D (xs @ i # ys) a) = u @ v @ w"
    using u v w x e by (simp add: printed_def)
  ultimately show ?thesis
    by auto
qed

lemma load_semantic_interfaces_printed_nth:
  assumes "k < length fs"
  shows "set (printed (load_semantic_interfaces D (take k fs) a)
            (snd (check_name (load_semantic_interfaces D (take k fs) a)
                   (semantic_interface.name (semantic_capability_interface_from_file_path D (fs ! k))) ''semantic_interface'')))
         \<subseteq> set (printed a (load_semantic_interfaces D fs a))"
  using load_semantic_interfaces_printed_at [of D "take k fs" a "fs ! k" "drop (Suc k) fs"] assms
  by (simp add: id_take_nth_drop [symmetric])

lemma find_take_nth:
  assumes "j < k" and "k \<le> length xs" and "f (xs ! j) = n"
  shows "find (\<lambda>r. f r = n) (take k xs) \<noteq> None"
proof -
  have "xs ! j \<in> set (take k xs)"
    using assms by (metis in_set_conv_nth length_take min.absorb2 nth_take)
  then show ?thesis
    using assms(3) by (auto simp: find_None_iff)
qed

lemma printed_chain:
  assumes "stdout b = stdout a @ u" and "stdout c = stdout b @ w"
  shows "set (printed a b) \<subseteq> set (printed a c)" and "set (printed b c) \<subseteq> set (printed a c)"
  using assms by (auto simp: printed_def)

lemma load_stages:
  assumes "caps = build_file_index D (build_package_dict D (effective_path arg self))"
    and "a0 = initialize_capabilities (self\<lparr>ros_package_path := effective_path arg self\<rparr>)"
    and "a1 = load_interfaces D (list_interface_files D caps) a0"
    and "a2 = load_providers D (list_provider_files D caps) a1"
  shows "load_from_ros_package_path D arg self =
           load_semantic_interfaces D (list_semantic_interface_files D caps) a2"
    and "set (printed a0 a1) \<subseteq> set (printed self (load_from_ros_package_path D arg self))"
    and "set (printed a1 a2) \<subseteq> set (printed self (load_from_ros_package_path D arg self))"
    and "set (printed a2 (load_from_ros_package_path D arg self))
           \<subseteq> set (printed self (load_from_ros_package_path D arg self))"
proof -
  let ?s = "load_from_ros_package_path D arg self"
  show s: "?s = load_semantic_interfaces D (list_semantic_interface_files D caps) a2"
    using assms by (simp add: load_unfold)
  have z: "stdout a0 = stdout self"
    using assms(2) by (simp add: initialize_capabilities_def)
  obtain u where u: "stdout a1 = stdout a0 @ u"
    using assms(3) load_interfaces_stdout by blast
  obtain v where v: "stdout a2 = stdout a1 @ v"
    using assms(4) load_providers_stdout by blast
  obtain w where w: "stdout ?s = stdout a2 @ w"
    using s load_semantic_interfaces_stdout by metis
  show "set (printed a0 a1) \<subseteq> set (printed self ?s)"
    using z u v w by (auto simp: printed_def)
  show "set (printed a1 a2) \<subseteq> set (printed self ?s)"
    using z u v w by (auto simp: printed_def)
  show "set (printed a2 ?s) \<subseteq> set (printed self ?s)"
    using z u v w by (auto simp: printed_def)
qed

lemma duplicate_interface_printed:
  assumes "j < k" and "k < length (discovered_interfaces D (effective_path arg self))"
    and "interface.name (discovered_interfaces D (effective_path arg self) ! j) = n"
    and "interface.name (discovered_interfaces D (effective_path arg self) ! k) = n"
  shows "''interface'' @ '' '' @ n @ '' already declared''
           \<in> set (printed self (load_from_ros_package_path D arg self))"
proof -
  define caps where "caps = build_file_index D (build_package_dict D (effective_path arg self))"
  define a0 where
    "a0 = initialize_capabilities (self\<lparr>ros_package_path := effective_path arg self\<rparr>)"
  define fs where "fs = list_interface_files D caps"
  define a1 where "a1 = load_interfaces D fs a0"
  define a2 where "a2 = load_providers D (list_provider_files D caps) a1"
  define st where "st = load_interfaces D (take k fs) a0"
  have d: "discovered_interfaces D (effective_path arg self) =
             map (capability_interface_from_file_path D) fs"
    by (simp add: discovered_interfaces_def fs_def caps_def)
  have k: "k < length fs" and nk: "interface.name (capability_interface_from_file_path D (fs ! k)) = n"
    using assms d by simp_all
  have "find (\<lambda>r. interface.name r = n) (take k (map (capability_interface_from_file_path D) fs))
          \<noteq> None"
    using assms d by (intro find_take_nth [of j]) simp_all
  then have c: "dict_contains n (interfaces st)"
    by (simp add: st_def dict_contains_map_of load_interfaces_lookup a0_def dict_contains_def
        take_map)
  have "stdout (snd (check_name st n ''interface'')) =
          stdout st @ [''interface'' @ '' '' @ n @ '' already declared'']"
    using c by (simp add: check_name_stdout)
  then have "printed st (snd (check_name st n ''interface'')) =
               [''interface'' @ '' '' @ n @ '' already declared'']"
    by (rule printed_append)
  then have "''interface'' @ '' '' @ n @ '' already declared'' \<in> set (printed a0 a1)"
    using load_interfaces_printed_nth [OF k, of D a0] nk
    unfolding st_def a1_def by auto
  then show ?thesis
    using load_stages(2) [OF caps_def a0_def a1_def [unfolded fs_def] a2_def]
    unfolding a1_def fs_def by blast
qed

lemma load_stage_interfaces:
  "dict_contains n
     (interfaces (load_interfaces D (list_interface_files D
        (build_file_index D (build_package_dict D path))) (initialize_capabilities self))) \<longleftrightarrow>
   n \<in> interface.name ` set (discovered_interfaces D path)"
  by (simp add: dict_contains_map_of load_interfaces_lookup dict_contains_def
      discovered_interfaces_def find_name_None)

lemma duplicate_provider_printed:
  assumes "j < k" and "k < length (discovered_providers D (effective_path arg self))"
    and "provider.name (discovered_providers D (effective_path arg self) ! j) = n"
    and "provider.name (discovered_providers D (effective_path arg self) ! k) = n"
  shows "(if n \<in> interface.name ` set (discovered_interfaces D (effective_path arg self))
          then ''provider'' @ '' '' @ n @ '' already declared''
          else ''provider'' @ '' '' @ n @ '' collides with a provider name'')
           \<in> set (printed self (load_from_ros_package_path D arg self))"
proof -
  define caps where "caps = build_file_index D (build_package_dict D (effective_path arg self))"
  define a0 where
    "a0 = initialize_capabilities (self\<lparr>ros_package_path := effective_path arg self\<rparr>)"
  define a1 where "a1 = load_interfaces D (list_interface_files D caps) a0"
  define fs where "fs = list_provider_files D caps"
  define a2 where "a2 = load_providers D fs a1"
  define st where "st = load_providers D (take k fs) a1"
  let ?line = "if n \<in> interface.name ` set (discovered_interfaces D (effective_path arg self))
          then ''provider'' @ '' '' @ n @ '' already declared''
          else ''provider'' @ '' '' @ n @ '' collides with a provider name''"
  have d: "discovered_providers D (effective_path arg self) =
             map (capability_provider_from_file_path D) fs"
    by (simp add: discovered_providers_def fs_def caps_def)
  have k: "k < length fs" and nk: "provider.name (capability_provider_from_file_path D (fs ! k)) = n"
    using assms d by simp_all
  have ci: "dict_contains n (interfaces st) \<longleftrightarrow>
              n \<in> interface.name ` set (discovered_interfaces D (effective_path arg self))"
    unfolding st_def a1_def a0_def caps_def by (simp add: load_stage_interfaces)
  have f: "find (\<lambda>r. provider.name r = n) (take k (map (capability_provider_from_file_path D) fs))
          \<noteq> None"
    using assms d by (intro find_take_nth [of j]) simp_all
  have cp: "dict_contains n (providers st)" if "\<not> dict_contains n (interfaces st)"
    using that f
    by (simp add: st_def dict_contains_map_of load_providers_lookup a1_def a0_def
        dict_contains_def take_map)
  have "stdout (snd (check_name st n ''provider'')) = stdout st @ [?line]"
    using ci cp by (simp add: check_name_stdout)
  then have "printed st (snd (check_name st n ''provider'')) = [?line]"
    by (rule printed_append)
  then have "?line \<in> set (printed a1 a2)"
    using load_providers_printed_nth [OF k, of D a1] nk
    unfolding st_def a2_def by auto
  then show ?thesis
    using load_stages(3) [OF caps_def a0_def a1_def a2_def [unfolded fs_def]]
    unfolding a2_def fs_def by blast
qed

lemma load_stage_providers:
  "dict_contains n
     (providers (load_providers D (list_provider_files D
        (build_file_index D (build_package_dict D path)))
        (load_interfaces D (list_interface_files D
           (build_file_index D (build_package_dict D path))) (initialize_capabilities self)))) \<longleftrightarrow>
   n \<notin> interface.name ` set (discovered_interfaces D path) \<and>
   n \<in> provider.name ` set (discovered_providers D path)"
  by (simp add: dict_contains_map_of load_providers_lookup load_interfaces_lookup
      dict_contains_def discovered_interfaces_def discovered_providers_def find_name_None
      find_name_ex)

lemma duplicate_semantic_interface_printed:
  assumes "j < k" and "k < length (discovered_semantic_interfaces D (effective_path arg self))"
    and "semantic_interface.name (discovered_semantic_interfaces D (effective_path arg self) ! j) = n"
    and "semantic_interface.name (discovered_semantic_interfaces D (effective_path arg self) ! k) = n"
  shows "(if n \<in> interface.name ` set (discovered_interfaces D (effective_path arg self))
          then ''semantic_interface'' @ '' '' @ n @ '' already declared''
          else if n \<in> provider.name ` set (discovered_providers D (effective_path arg self))
          then ''semantic_interface'' @ '' '' @ n @ '' collides with a provider name''
          else ''semantic_interface'' @ '' '' @ n @ '' collides with a semantic_interface name'')
           \<in> set (printed self (load_from_ros_package_path D arg self))"
proof -
  define caps where "caps = build_file_index D (build_package_dict D (effective_path arg self))"
  define a0 where
    "a0 = initialize_capabilities (self\<lparr>ros_package_path := effective_path arg self\<rparr>)"
  define a1 where "a1 = load_interfaces D (list_interface_files D caps) a0"
  define a2 where "a2 = load_providers D (list_provider_files D caps) a1"
  define fs where "fs = list_semantic_interface_files D caps"
  define st where "st = load_semantic_interfaces D (take k fs) a2"
  let ?line = "if n \<in> interface.name ` set (discovered_interfaces D (effective_path arg self))
          then ''semantic_interface'' @ '' '' @ n @ '' already declared''
          else if n \<in> provider.name ` set (discovered_providers D (effective_path arg self))
          then ''semantic_interface'' @ '' '' @ n @ '' collides with a provider name''
          else ''semantic_interface'' @ '' '' @ n @ '' collides with a semantic_interface name''"
  have d: "discovered_semantic_interfaces D (effective_path arg self) =
             map (semantic_capability_interface_from_file_path D) fs"
    by (simp add: discovered_semantic_interfaces_def fs_def caps_def)
  have k: "k < length fs"
    and nk: "semantic_interface.name (semantic_capability_interface_from_file_path D (fs ! k)) = n"
    using assms d by simp_all
  have ci: "dict_contains n (interfaces st) \<longleftrightarrow>
              n \<in> interface.name ` set (discovered_interfaces D (effective_path arg self))"
    unfolding st_def a2_def a1_def a0_def caps_def by (simp add: load_stage_interfaces)
  have cp: "dict_contains n (providers st) \<longleftrightarrow>
              n \<notin> interface.name ` set (discovered_interfaces D (effective_path arg self)) \<and>
              n \<in> provider.name ` set (discovered_providers D (effective_path arg self))"
    unfolding st_def a2_def a1_def a0_def caps_def by (simp add: load_stage_providers)
  have f: "find (\<lambda>r. semantic_interface.name r = n)
             (take k (map (semantic_capability_interface_from_file_path D) fs)) \<noteq> None"
    using assms d by (intro find_take_nth [of j]) simp_all
  have cs: "dict_contains n (semantic_interfaces st)"
    if "\<not> dict_contains n (interfaces st)" and "\<not> dict_contains n (providers st)"
  proof -
    have "\<not> dict_contains n (interfaces a2)" and "\<not> dict_contains n (providers a2)"
      using that by (simp_all add: st_def)
    then show ?thesis
      using f
      by (simp add: st_def dict_contains_map_of load_semantic_interfaces_lookup a2_def a1_def
          a0_def take_map)
  qed
  have "stdout (snd (check_name st n ''semantic_interface'')) = stdout st @ [?line]"
    using ci cp cs by (simp add: check_name_stdout)
  then have "printed st (snd (check_name st n ''semantic_interface'')) = [?line]"
    by (rule printed_append)
  then have "?line \<in> set (printed a2 (load_semantic_interfaces D fs a2))"
    using load_semantic_interfaces_printed_nth [OF k, of D a2] nk
    unfolding st_def by auto
  then show ?thesis
    using load_stages(1,4) [OF caps_def a0_def a1_def a2_def]
    unfolding fs_def by auto
qed

lemma find_first_index:
  assumes "j < length xs" and "f (xs ! j) = n"
  shows "\<exists>m\<le>j. find (\<lambda>r. f r = n) xs = Some (xs ! m)"
proof -
  have "xs ! j \<in> set xs"
    using assms(1) by simp
  then have "find (\<lambda>r. f r = n) xs \<noteq> None"
    using assms(2) by (auto simp: find_None_iff)
  then obtain x where "find (\<lambda>r. f r = n) xs = Some x"
    by blast
  then obtain i where i: "i < length xs" "x = xs ! i" "\<forall>l<i. f (xs ! l) \<noteq> n"
    and x: "find (\<lambda>r. f r = n) xs = Some x"
    by (auto simp: find_Some_iff)
  have "i \<le> j"
  proof (rule ccontr)
    assume "\<not> i \<le> j"
    then have "j < i" by simp
    with i(3) have "f (xs ! j) \<noteq> n" by blast
    with assms(2) show False by simp
  qed
  then show ?thesis
    using i(2) x by blast
qed

section \<open>Properties\<close>

subsection \<open>Uniqueness of names\<close>

text \<open>
  Claim C1: after construction and after every reload, whatever discovery yields, no
  name is a key of more than one of the three dictionaries. The list of the keys of
  the interfaces, followed by those of the providers and those of the semantic
  interfaces, has no duplicate, so the three sets of keys are pairwise disjoint.
\<close>

theorem loaded_names_unique:
  assumes "s = load_from_ros_package_path D arg self \<or> s = init D arg"
  shows "names_unique s \<and>
         dict_keys (interfaces s) \<inter> dict_keys (providers s) = {} \<and>
         dict_keys (interfaces s) \<inter> dict_keys (semantic_interfaces s) = {} \<and>
         dict_keys (providers s) \<inter> dict_keys (semantic_interfaces s) = {}"
proof -
  have "names_unique s"
    using assms by (auto simp: init_is_load load_unique)
  then show ?thesis
    using names_unique_disjoint by blast
qed

theorem loaded_names_unique_witness:
  "example_index = init example_discovery (Some [''/pkgs/a'']) \<and>
   names_unique example_index \<and>
   dict_keys (interfaces example_index) \<inter> dict_keys (providers example_index) = {} \<and>
   dict_keys (interfaces example_index) \<inter> dict_keys (semantic_interfaces example_index) = {} \<and>
   dict_keys (providers example_index) \<inter> dict_keys (semantic_interfaces example_index) = {} \<and>
   dict_keys (interfaces example_index) = {''Minimal'', ''Nav''} \<and>
   dict_keys (providers example_index) = {''P1'', ''P2''} \<and>
   dict_keys (semantic_interfaces example_index) = {''S1''}"
proof -
  have h: "example_index = load_from_ros_package_path example_discovery (Some [''/pkgs/a'']) example_index
             \<or> example_index = init example_discovery (Some [''/pkgs/a''])"
    by (simp add: example_index_def)
  have k: "dict_keys (interfaces example_index) = {''Minimal'', ''Nav''} \<and>
           dict_keys (providers example_index) = {''P1'', ''P2''} \<and>
           dict_keys (semantic_interfaces example_index) = {''S1''}"
    by (simp add: example_index_value dict_keys_def)
  show ?thesis
    using loaded_names_unique [OF h] k by (simp add: example_index_def)
qed

subsection \<open>Keys are names\<close>

text \<open>
  Claim C10: after construction and after every reload, every entry of each of the
  three dictionaries is stored under the \<^verbatim>\<open>name\<close> of its value: looking up a
  key \<open>n\<close> yields an entity whose name is \<open>n\<close>.
\<close>

theorem loaded_keyed_by_name:
  assumes "s = load_from_ros_package_path D arg self \<or> s = init D arg"
  shows "keyed_by_name s \<and>
         (\<forall>n e. dict_getitem (interfaces s) n = Some e \<longrightarrow> interface.name e = n) \<and>
         (\<forall>n p. dict_getitem (providers s) n = Some p \<longrightarrow> provider.name p = n) \<and>
         (\<forall>n q. dict_getitem (semantic_interfaces s) n = Some q \<longrightarrow>
                  semantic_interface.name q = n)"
proof -
  have "keyed_by_name s"
    using assms by (auto simp: init_is_load load_keyed)
  then show ?thesis
    using keyed_by_name_getitem by blast
qed

theorem loaded_keyed_by_name_witness:
  "example_index = init example_discovery (Some [''/pkgs/a'']) \<and>
   keyed_by_name example_index \<and>
   dict_getitem (providers example_index) ''P2'' =
     Some \<lparr>provider.name = ''P2'', implements = ''Minimal''\<rparr> \<and>
   provider.name \<lparr>provider.name = ''P2'', implements = ''Minimal''\<rparr> = ''P2''"
proof -
  have h: "example_index = load_from_ros_package_path example_discovery (Some [''/pkgs/a'']) example_index
             \<or> example_index = init example_discovery (Some [''/pkgs/a''])"
    by (simp add: example_index_def)
  have g: "dict_getitem (providers example_index) ''P2'' =
             Some \<lparr>provider.name = ''P2'', implements = ''Minimal''\<rparr>"
    by (simp add: example_index_value dict_getitem_def)
  from loaded_keyed_by_name [OF h] have
    "keyed_by_name example_index" and
    "\<forall>n p. dict_getitem (providers example_index) n = Some p \<longrightarrow> provider.name p = n"
    by blast+
  with g show ?thesis
    by (simp add: example_index_def)
qed

subsection \<open>Collisions across kinds\<close>

text \<open>
  Claim C4: when discovery yields an interface named \<open>X\<close> and a provider named
  \<open>X\<close>, after the reload the interfaces hold an interface named \<open>X\<close> and the
  providers hold no entry \<open>X\<close>. The same order decides every collision across
  kinds: an interface wins over a semantic interface of its name, and a provider
  whose name is no interface's wins over a semantic interface of its name.
\<close>

theorem first_kind_wins:
  assumes "s = load_from_ros_package_path D arg self"
    and "path = effective_path arg self"
  shows "(X \<in> interface.name ` set (discovered_interfaces D path) \<and>
          X \<in> provider.name ` set (discovered_providers D path) \<longrightarrow>
            (\<exists>r\<in>set (discovered_interfaces D path).
               interface.name r = X \<and> dict_getitem (interfaces s) X = Some r) \<and>
            \<not> dict_contains X (providers s)) \<and>
         (X \<in> interface.name ` set (discovered_interfaces D path) \<and>
          X \<in> semantic_interface.name ` set (discovered_semantic_interfaces D path) \<longrightarrow>
            (\<exists>r\<in>set (discovered_interfaces D path).
               interface.name r = X \<and> dict_getitem (interfaces s) X = Some r) \<and>
            \<not> dict_contains X (semantic_interfaces s)) \<and>
         (X \<notin> interface.name ` set (discovered_interfaces D path) \<and>
          X \<in> provider.name ` set (discovered_providers D path) \<and>
          X \<in> semantic_interface.name ` set (discovered_semantic_interfaces D path) \<longrightarrow>
            (\<exists>r\<in>set (discovered_providers D path).
               provider.name r = X \<and> dict_getitem (providers s) X = Some r) \<and>
            \<not> dict_contains X (semantic_interfaces s))"
proof -
  have i: "\<exists>r\<in>set (discovered_interfaces D path).
             interface.name r = X \<and> dict_getitem (interfaces s) X = Some r"
    if "X \<in> interface.name ` set (discovered_interfaces D path)"
    using find_name_Some [OF that] assms
    by (simp add: dict_getitem_def load_interfaces_of)
  have p: "\<exists>r\<in>set (discovered_providers D path).
             provider.name r = X \<and> dict_getitem (providers s) X = Some r"
    if "X \<notin> interface.name ` set (discovered_interfaces D path)"
      and "X \<in> provider.name ` set (discovered_providers D path)"
    using find_name_Some [OF that(2)] that(1) assms
    by (simp add: dict_getitem_def load_providers_of find_name_None)
  show ?thesis
    using i p assms
    by (simp add: load_contains_provider load_contains_semantic_interface)
qed

theorem first_kind_wins_witness:
  "''Minimal'' \<in> interface.name ` set (discovered_interfaces example_discovery (Some [''/pkgs/a''])) \<and>
   ''Minimal'' \<in> provider.name ` set (discovered_providers example_discovery (Some [''/pkgs/a''])) \<and>
   dict_getitem (interfaces example_index) ''Minimal'' = Some \<lparr>interface.name = ''Minimal''\<rparr> \<and>
   \<not> dict_contains ''Minimal'' (providers example_index)"
proof -
  let ?self = "initialize_capabilities
     \<lparr>ros_package_path = Some [''/pkgs/a''], interfaces = [], providers = [],
      semantic_interfaces = [], stdout = []\<rparr>"
  have s: "example_index =
             load_from_ros_package_path example_discovery (Some [''/pkgs/a'']) ?self"
    by (simp add: example_index_def init_def)
  have p: "Some [''/pkgs/a''] = effective_path (Some [''/pkgs/a'']) ?self"
    by (simp add: effective_path_def)
  have h1: "''Minimal'' \<in> interface.name `
              set (discovered_interfaces example_discovery (Some [''/pkgs/a'']))"
    by (simp add: discovered_interfaces_def example_discovery_def)
  have h2: "''Minimal'' \<in> provider.name `
              set (discovered_providers example_discovery (Some [''/pkgs/a'']))"
    by (simp add: discovered_providers_def example_discovery_def)
  have g: "dict_getitem (interfaces example_index) ''Minimal'' =
             Some \<lparr>interface.name = ''Minimal''\<rparr>"
    by (simp add: example_index_value dict_getitem_def)
  from first_kind_wins [OF s p, of "''Minimal''"] h1 h2
  have "\<not> dict_contains ''Minimal'' (providers example_index)"
    by blast
  with h1 h2 g show ?thesis
    by blast
qed

subsection \<open>A collision skips one record\<close>

text \<open>
  Claim C6: a record whose name fails the uniqueness check is skipped and the reload
  goes on. In each of the three loops, if the check rejects the record of file \<open>i\<close>
  after the files \<open>xs\<close>, then processing \<open>xs\<close>, \<open>i\<close> and the remaining files
  \<open>ys\<close> leaves the same path and dictionaries as processing \<open>xs\<close> and \<open>ys\<close>
  alone: the record entered no dictionary and every remaining file was processed.
  After the whole reload every discovered name is a key of the index, so no record,
  of any kind, was left unprocessed by a collision before it.
\<close>

theorem collision_skips_record_only:
  assumes "s = load_from_ros_package_path D arg self"
    and "path = effective_path arg self"
  shows "(\<not> fst (check_name (load_interfaces D xs a)
                   (interface.name (capability_interface_from_file_path D i)) ''interface'') \<longrightarrow>
            same_index (load_interfaces D (xs @ i # ys) a) (load_interfaces D (xs @ ys) a)) \<and>
         (\<not> fst (check_name (load_providers D xs a)
                   (provider.name (capability_provider_from_file_path D i)) ''provider'') \<longrightarrow>
            same_index (load_providers D (xs @ i # ys) a) (load_providers D (xs @ ys) a)) \<and>
         (\<not> fst (check_name (load_semantic_interfaces D xs a)
                   (semantic_interface.name (semantic_capability_interface_from_file_path D i))
                   ''semantic_interface'') \<longrightarrow>
            same_index (load_semantic_interfaces D (xs @ i # ys) a)
              (load_semantic_interfaces D (xs @ ys) a)) \<and>
         (\<forall>r\<in>set (discovered_interfaces D path).
            dict_contains (interface.name r) (interfaces s)) \<and>
         (\<forall>r\<in>set (discovered_providers D path).
            dict_contains (provider.name r) (interfaces s) \<or>
            dict_contains (provider.name r) (providers s)) \<and>
         (\<forall>r\<in>set (discovered_semantic_interfaces D path).
            dict_contains (semantic_interface.name r) (interfaces s) \<or>
            dict_contains (semantic_interface.name r) (providers s) \<or>
            dict_contains (semantic_interface.name r) (semantic_interfaces s))"
proof -
  have "\<forall>r\<in>set (discovered_interfaces D path). dict_contains (interface.name r) (interfaces s)"
    using assms by (simp add: load_contains_interface)
  moreover have "\<forall>r\<in>set (discovered_providers D path).
      dict_contains (provider.name r) (interfaces s) \<or>
      dict_contains (provider.name r) (providers s)"
    using assms by (simp add: load_contains_interface load_contains_provider)
  moreover have "\<forall>r\<in>set (discovered_semantic_interfaces D path).
      dict_contains (semantic_interface.name r) (interfaces s) \<or>
      dict_contains (semantic_interface.name r) (providers s) \<or>
      dict_contains (semantic_interface.name r) (semantic_interfaces s)"
    using assms
    by (auto simp: load_contains_interface load_contains_provider
        load_contains_semantic_interface)
  ultimately show ?thesis
    using load_interfaces_skip [of D xs a i ys] load_providers_skip [of D xs a i ys]
      load_semantic_interfaces_skip [of D xs a i ys]
    by blast
qed

theorem collision_skips_record_only_witness:
  "\<not> fst (check_name
            (load_providers example_discovery [''p1'']
               (load_interfaces example_discovery [''i1'', ''i2'']
                  (initialize_capabilities
                     \<lparr>ros_package_path = Some [''/pkgs/a''], interfaces = [], providers = [],
                      semantic_interfaces = [], stdout = []\<rparr>)))
            (provider.name (capability_provider_from_file_path example_discovery ''p2''))
            ''provider'') \<and>
   same_index
     (load_providers example_discovery ([''p1''] @ ''p2'' # [''p3'', ''p4''])
        (load_interfaces example_discovery [''i1'', ''i2'']
           (initialize_capabilities
              \<lparr>ros_package_path = Some [''/pkgs/a''], interfaces = [], providers = [],
               semantic_interfaces = [], stdout = []\<rparr>)))
     (load_providers example_discovery ([''p1''] @ [''p3'', ''p4''])
        (load_interfaces example_discovery [''i1'', ''i2'']
           (initialize_capabilities
              \<lparr>ros_package_path = Some [''/pkgs/a''], interfaces = [], providers = [],
               semantic_interfaces = [], stdout = []\<rparr>))) \<and>
   \<not> fst (check_name
            (load_interfaces example_discovery [''i2'']
               (initialize_capabilities
                  \<lparr>ros_package_path = Some [''/pkgs/a''], interfaces = [], providers = [],
                   semantic_interfaces = [], stdout = []\<rparr>))
            (interface.name (capability_interface_from_file_path example_discovery ''i3''))
            ''interface'') \<and>
   same_index
     (load_interfaces example_discovery ([''i2''] @ ''i3'' # [''i1''])
        (initialize_capabilities
           \<lparr>ros_package_path = Some [''/pkgs/a''], interfaces = [], providers = [],
            semantic_interfaces = [], stdout = []\<rparr>))
     (load_interfaces example_discovery ([''i2''] @ [''i1''])
        (initialize_capabilities
           \<lparr>ros_package_path = Some [''/pkgs/a''], interfaces = [], providers = [],
            semantic_interfaces = [], stdout = []\<rparr>)) \<and>
   \<not> fst (check_name
            (load_semantic_interfaces example_discovery [] example_index)
            (semantic_interface.name
               (semantic_capability_interface_from_file_path example_discovery ''s1''))
            ''semantic_interface'') \<and>
   same_index
     (load_semantic_interfaces example_discovery ([] @ ''s1'' # [''s2'']) example_index)
     (load_semantic_interfaces example_discovery ([] @ [''s2'']) example_index) \<and>
   dict_contains ''Minimal'' (interfaces example_index) \<and>
   dict_contains ''P2'' (providers example_index) \<and>
   dict_contains ''S1'' (semantic_interfaces example_index)"
proof -
  let ?a0 = "initialize_capabilities
     \<lparr>ros_package_path = Some [''/pkgs/a''], interfaces = [], providers = [],
      semantic_interfaces = [], stdout = []\<rparr>"
  let ?a1 = "load_interfaces example_discovery [''i1'', ''i2''] ?a0"
  have s: "example_index = load_from_ros_package_path example_discovery (Some [''/pkgs/a'']) ?a0"
    by (simp add: example_index_def init_def)
  have p: "Some [''/pkgs/a''] = effective_path (Some [''/pkgs/a'']) ?a0"
    by (simp add: effective_path_def)
  have hi: "\<not> fst (check_name (load_interfaces example_discovery [''i2''] ?a0)
              (interface.name (capability_interface_from_file_path example_discovery ''i3''))
              ''interface'')"
    by (simp add: example_discovery_def initialize_capabilities_def load_interfaces_Cons
        Let_def check_name_def print_def dict_contains_def)
  have hp: "\<not> fst (check_name (load_providers example_discovery [''p1''] ?a1)
              (provider.name (capability_provider_from_file_path example_discovery ''p2''))
              ''provider'')"
    by (simp add: example_discovery_def initialize_capabilities_def load_interfaces_Cons
        load_providers_Cons Let_def check_name_def print_def dict_contains_def)
  have hs: "\<not> fst (check_name (load_semantic_interfaces example_discovery [] example_index)
              (semantic_interface.name
                 (semantic_capability_interface_from_file_path example_discovery ''s1''))
              ''semantic_interface'')"
    by (simp add: example_index_value example_discovery_def check_name_def print_def
        dict_contains_def)
  have di: "\<forall>r\<in>set (discovered_interfaces example_discovery (Some [''/pkgs/a''])).
              dict_contains (interface.name r) (interfaces example_index)"
    using collision_skips_record_only [OF s p] by blast
  have "\<lparr>interface.name = ''Minimal''\<rparr> \<in>
          set (discovered_interfaces example_discovery (Some [''/pkgs/a'']))"
    by (simp add: discovered_interfaces_def example_discovery_def)
  with di have ci: "dict_contains ''Minimal'' (interfaces example_index)"
    by fastforce
  have cp: "dict_contains ''P2'' (providers example_index)"
    and cs: "dict_contains ''S1'' (semantic_interfaces example_index)"
    by (simp_all add: example_index_value dict_contains_def)
  from collision_skips_record_only [OF s p, of "[''i2'']" ?a0 "''i3''" "[''i1'']"] hi
  have ri: "same_index (load_interfaces example_discovery ([''i2''] @ ''i3'' # [''i1'']) ?a0)
              (load_interfaces example_discovery ([''i2''] @ [''i1'']) ?a0)"
    by blast
  from collision_skips_record_only [OF s p, of "[''p1'']" ?a1 "''p2''" "[''p3'', ''p4'']"] hp
  have rp: "same_index (load_providers example_discovery ([''p1''] @ ''p2'' # [''p3'', ''p4'']) ?a1)
              (load_providers example_discovery ([''p1''] @ [''p3'', ''p4'']) ?a1)"
    by blast
  from collision_skips_record_only [OF s p, of "[]" example_index "''s1''" "[''s2'']"] hs
  have rs: "same_index
              (load_semantic_interfaces example_discovery ([] @ ''s1'' # [''s2'']) example_index)
              (load_semantic_interfaces example_discovery ([] @ [''s2'']) example_index)"
    by blast
  from hi hp hs ri rp rs ci cp cs show ?thesis
    by blast
qed

subsection \<open>Records of one kind with the same name\<close>

text \<open>
  Claim C2 says that of two records of one kind with the same name the later one
  overwrites the earlier one, since the check would not look at the record's own
  dictionary. \<^verbatim>\<open>_check_name\<close> looks at all three dictionaries whatever the
  kind: in the example the provider files \<open>p1\<close> and \<open>p3\<close> both declare
  \<open>P1\<close>; after the load the providers hold the record of \<open>p1\<close>, not that of
  \<open>p3\<close>, and the rejection of \<open>p3\<close> was printed.
\<close>

theorem later_record_overwrites_counterexample:
  "example_index = init example_discovery (Some [''/pkgs/a'']) \<and>
   list_provider_files example_discovery
     (build_file_index example_discovery
        (build_package_dict example_discovery (Some [''/pkgs/a'']))) =
     [''p1'', ''p2'', ''p3'', ''p4''] \<and>
   capability_provider_from_file_path example_discovery ''p1'' =
     \<lparr>provider.name = ''P1'', implements = ''Minimal''\<rparr> \<and>
   capability_provider_from_file_path example_discovery ''p3'' =
     \<lparr>provider.name = ''P1'', implements = ''Nav''\<rparr> \<and>
   dict_getitem (providers example_index) ''P1'' =
     Some \<lparr>provider.name = ''P1'', implements = ''Minimal''\<rparr> \<and>
   dict_getitem (providers example_index) ''P1'' \<noteq>
     Some \<lparr>provider.name = ''P1'', implements = ''Nav''\<rparr> \<and>
   stdout example_index ! 1 = ''provider P1 collides with a provider name''"
proof -
  have "list_provider_files example_discovery
          (build_file_index example_discovery
             (build_package_dict example_discovery (Some [''/pkgs/a'']))) =
          [''p1'', ''p2'', ''p3'', ''p4'']"
    and "capability_provider_from_file_path example_discovery ''p1'' =
           \<lparr>provider.name = ''P1'', implements = ''Minimal''\<rparr>"
    and "capability_provider_from_file_path example_discovery ''p3'' =
           \<lparr>provider.name = ''P1'', implements = ''Nav''\<rparr>"
    by (simp_all add: example_discovery_def)
  moreover have "dict_getitem (providers example_index) ''P1'' =
                   Some \<lparr>provider.name = ''P1'', implements = ''Minimal''\<rparr>"
    and "stdout example_index ! 1 = ''provider P1 collides with a provider name''"
    by (simp_all add: example_index_value dict_getitem_def)
  ultimately show ?thesis
    by (simp add: example_index_def)
qed

text \<open>
  Claim C2 as amended: when two discovered records of one kind, the \<open>j\<close>-th and
  the \<open>k\<close>-th with \<open>j < k\<close>, have the same name \<open>n\<close>, the later one does not
  overwrite anything: \<^verbatim>\<open>_check_name\<close> looks at all three dictionaries, the
  record's own included, rejects it and prints a line. If no kind processed earlier
  holds \<open>n\<close>, the dictionary of the kind holds under \<open>n\<close> the first discovered
  record of that kind named \<open>n\<close>, found at an index \<open>m \<le> j\<close>, and the printed
  line names the record's own kind as the holder; if an earlier kind holds \<open>n\<close>,
  the dictionary of the kind has no entry \<open>n\<close> and the line names that kind.
\<close>

theorem duplicate_in_kind_first_kept:
  assumes "s = load_from_ros_package_path D arg self"
    and "path = effective_path arg self"
    and "j < k"
  shows "(k < length (discovered_interfaces D path) \<and>
          interface.name (discovered_interfaces D path ! j) = n \<and>
          interface.name (discovered_interfaces D path ! k) = n \<longrightarrow>
            (\<exists>m\<le>j. find (\<lambda>r. interface.name r = n) (discovered_interfaces D path) =
                      Some (discovered_interfaces D path ! m) \<and>
                    dict_getitem (interfaces s) n = Some (discovered_interfaces D path ! m)) \<and>
            ''interface '' @ n @ '' already declared'' \<in> set (printed self s)) \<and>
         (k < length (discovered_providers D path) \<and>
          provider.name (discovered_providers D path ! j) = n \<and>
          provider.name (discovered_providers D path ! k) = n \<longrightarrow>
            (\<exists>m\<le>j. find (\<lambda>r. provider.name r = n) (discovered_providers D path) =
                      Some (discovered_providers D path ! m) \<and>
                    dict_getitem (providers s) n =
                      (if n \<in> interface.name ` set (discovered_interfaces D path) then None
                       else Some (discovered_providers D path ! m))) \<and>
            (if n \<in> interface.name ` set (discovered_interfaces D path)
             then ''provider '' @ n @ '' already declared''
             else ''provider '' @ n @ '' collides with a provider name'')
              \<in> set (printed self s)) \<and>
         (k < length (discovered_semantic_interfaces D path) \<and>
          semantic_interface.name (discovered_semantic_interfaces D path ! j) = n \<and>
          semantic_interface.name (discovered_semantic_interfaces D path ! k) = n \<longrightarrow>
            (\<exists>m\<le>j. find (\<lambda>r. semantic_interface.name r = n)
                      (discovered_semantic_interfaces D path) =
                      Some (discovered_semantic_interfaces D path ! m) \<and>
                    dict_getitem (semantic_interfaces s) n =
                      (if n \<in> interface.name ` set (discovered_interfaces D path) \<or>
                          n \<in> provider.name ` set (discovered_providers D path) then None
                       else Some (discovered_semantic_interfaces D path ! m))) \<and>
            (if n \<in> interface.name ` set (discovered_interfaces D path)
             then ''semantic_interface '' @ n @ '' already declared''
             else if n \<in> provider.name ` set (discovered_providers D path)
             then ''semantic_interface '' @ n @ '' collides with a provider name''
             else ''semantic_interface '' @ n @ '' collides with a semantic_interface name'')
              \<in> set (printed self s))"
proof (intro conjI impI)
  assume h: "k < length (discovered_interfaces D path) \<and>
          interface.name (discovered_interfaces D path ! j) = n \<and>
          interface.name (discovered_interfaces D path ! k) = n"
  then have "j < length (discovered_interfaces D path)"
    using assms(3) by simp
  from find_first_index [OF this, of interface.name n] h
  show "\<exists>m\<le>j. find (\<lambda>r. interface.name r = n) (discovered_interfaces D path) =
                  Some (discovered_interfaces D path ! m) \<and>
                dict_getitem (interfaces s) n = Some (discovered_interfaces D path ! m)"
    using assms(1,2) by (simp add: dict_getitem_def load_interfaces_of)
  show "''interface '' @ n @ '' already declared'' \<in> set (printed self s)"
    using duplicate_interface_printed [of j k D arg self n] h assms by simp
next
  assume h: "k < length (discovered_providers D path) \<and>
          provider.name (discovered_providers D path ! j) = n \<and>
          provider.name (discovered_providers D path ! k) = n"
  then have "j < length (discovered_providers D path)"
    using assms(3) by simp
  from find_first_index [OF this, of provider.name n] h
  show "\<exists>m\<le>j. find (\<lambda>r. provider.name r = n) (discovered_providers D path) =
                  Some (discovered_providers D path ! m) \<and>
                dict_getitem (providers s) n =
                  (if n \<in> interface.name ` set (discovered_interfaces D path) then None
                   else Some (discovered_providers D path ! m))"
    using assms(1,2) by (auto simp: dict_getitem_def load_providers_of find_name_None)
  show "(if n \<in> interface.name ` set (discovered_interfaces D path)
         then ''provider '' @ n @ '' already declared''
         else ''provider '' @ n @ '' collides with a provider name'')
          \<in> set (printed self s)"
    using duplicate_provider_printed [of j k D arg self n] h assms
    by (auto split: if_splits)
next
  assume h: "k < length (discovered_semantic_interfaces D path) \<and>
          semantic_interface.name (discovered_semantic_interfaces D path ! j) = n \<and>
          semantic_interface.name (discovered_semantic_interfaces D path ! k) = n"
  then have "j < length (discovered_semantic_interfaces D path)"
    using assms(3) by simp
  from find_first_index [OF this, of semantic_interface.name n] h
  show "\<exists>m\<le>j. find (\<lambda>r. semantic_interface.name r = n)
                  (discovered_semantic_interfaces D path) =
                  Some (discovered_semantic_interfaces D path ! m) \<and>
                dict_getitem (semantic_interfaces s) n =
                  (if n \<in> interface.name ` set (discovered_interfaces D path) \<or>
                      n \<in> provider.name ` set (discovered_providers D path) then None
                   else Some (discovered_semantic_interfaces D path ! m))"
    using assms(1,2)
    by (auto simp: dict_getitem_def load_semantic_interfaces_of find_name_None)
  show "(if n \<in> interface.name ` set (discovered_interfaces D path)
         then ''semantic_interface '' @ n @ '' already declared''
         else if n \<in> provider.name ` set (discovered_providers D path)
         then ''semantic_interface '' @ n @ '' collides with a provider name''
         else ''semantic_interface '' @ n @ '' collides with a semantic_interface name'')
          \<in> set (printed self s)"
    using duplicate_semantic_interface_printed [of j k D arg self n] h assms
    by (auto split: if_splits)
qed

theorem duplicate_in_kind_first_kept_witness:
  "discovered_interfaces duplicates_discovery (Some [''/pkgs/a'']) =
     [\<lparr>interface.name = ''Minimal''\<rparr>, \<lparr>interface.name = ''Minimal''\<rparr>] \<and>
   discovered_providers duplicates_discovery (Some [''/pkgs/a'']) =
     [\<lparr>provider.name = ''P1'', implements = ''Minimal''\<rparr>,
      \<lparr>provider.name = ''P1'', implements = ''Nav''\<rparr>,
      \<lparr>provider.name = ''Minimal'', implements = ''Minimal''\<rparr>,
      \<lparr>provider.name = ''Minimal'', implements = ''Nav''\<rparr>] \<and>
   discovered_semantic_interfaces duplicates_discovery (Some [''/pkgs/a'']) =
     [\<lparr>semantic_interface.name = ''S1'', redefines = ''Minimal''\<rparr>,
      \<lparr>semantic_interface.name = ''S1'', redefines = ''Nav''\<rparr>] \<and>
   dict_getitem (interfaces duplicates_index) ''Minimal'' =
     Some \<lparr>interface.name = ''Minimal''\<rparr> \<and>
   ''interface Minimal already declared'' \<in> set (printed fresh_index duplicates_index) \<and>
   dict_getitem (providers duplicates_index) ''P1'' =
     Some \<lparr>provider.name = ''P1'', implements = ''Minimal''\<rparr> \<and>
   ''provider P1 collides with a provider name'' \<in> set (printed fresh_index duplicates_index) \<and>
   dict_getitem (providers duplicates_index) ''Minimal'' = None \<and>
   ''provider Minimal already declared'' \<in> set (printed fresh_index duplicates_index) \<and>
   dict_getitem (semantic_interfaces duplicates_index) ''S1'' =
     Some \<lparr>semantic_interface.name = ''S1'', redefines = ''Minimal''\<rparr> \<and>
   ''semantic_interface S1 collides with a semantic_interface name''
     \<in> set (printed fresh_index duplicates_index)"
proof -
  have s: "duplicates_index =
             load_from_ros_package_path duplicates_discovery (Some [''/pkgs/a'']) fresh_index"
    by (simp add: duplicates_index_def)
  have p: "Some [''/pkgs/a''] = effective_path (Some [''/pkgs/a'']) fresh_index"
    by (simp add: effective_path_def)
  have o: "(0::nat) < 1"
    by simp
  have o': "(2::nat) < 3"
    by simp
  have dI: "discovered_interfaces duplicates_discovery (Some [''/pkgs/a'']) =
     [\<lparr>interface.name = ''Minimal''\<rparr>, \<lparr>interface.name = ''Minimal''\<rparr>]"
    by (simp add: discovered_interfaces_def duplicates_discovery_def)
  have dP: "discovered_providers duplicates_discovery (Some [''/pkgs/a'']) =
     [\<lparr>provider.name = ''P1'', implements = ''Minimal''\<rparr>,
      \<lparr>provider.name = ''P1'', implements = ''Nav''\<rparr>,
      \<lparr>provider.name = ''Minimal'', implements = ''Minimal''\<rparr>,
      \<lparr>provider.name = ''Minimal'', implements = ''Nav''\<rparr>]"
    by (simp add: discovered_providers_def duplicates_discovery_def)
  have dS: "discovered_semantic_interfaces duplicates_discovery (Some [''/pkgs/a'']) =
     [\<lparr>semantic_interface.name = ''S1'', redefines = ''Minimal''\<rparr>,
      \<lparr>semantic_interface.name = ''S1'', redefines = ''Nav''\<rparr>]"
    by (simp add: discovered_semantic_interfaces_def duplicates_discovery_def)
  have i: "dict_getitem (interfaces duplicates_index) ''Minimal'' =
             Some \<lparr>interface.name = ''Minimal''\<rparr> \<and>
           ''interface Minimal already declared'' \<in> set (printed fresh_index duplicates_index)"
    using duplicate_in_kind_first_kept [OF s p o, of "''Minimal''"]
    by (simp add: dI dP dS)
  have p1: "dict_getitem (providers duplicates_index) ''P1'' =
              Some \<lparr>provider.name = ''P1'', implements = ''Minimal''\<rparr> \<and>
            ''provider P1 collides with a provider name''
              \<in> set (printed fresh_index duplicates_index)"
    using duplicate_in_kind_first_kept [OF s p o, of "''P1''"]
    by (simp add: dI dP dS)
  have p2: "dict_getitem (providers duplicates_index) ''Minimal'' = None \<and>
            ''provider Minimal already declared''
              \<in> set (printed fresh_index duplicates_index)"
    using duplicate_in_kind_first_kept [OF s p o', of "''Minimal''"]
    by (auto simp: dI dP dS)
  have s1: "dict_getitem (semantic_interfaces duplicates_index) ''S1'' =
              Some \<lparr>semantic_interface.name = ''S1'', redefines = ''Minimal''\<rparr> \<and>
            ''semantic_interface S1 collides with a semantic_interface name''
              \<in> set (printed fresh_index duplicates_index)"
    using duplicate_in_kind_first_kept [OF s p o, of "''S1''"]
    by (simp add: dI dP dS)
  from dI dP dS i p1 p2 s1 show ?thesis
    by blast
qed

subsection \<open>The saved package path\<close>

text \<open>
  Claim C3 says that an argument that is present replaces the saved path also when
  it is the empty list. The code tests the truth value of the argument
  (\<^verbatim>\<open>if not ros_package_path\<close>), and the empty list is false: reloading the
  example index with the empty list keeps the saved path \<open>[''/pkgs/a'']\<close>.
\<close>

theorem empty_override_counterexample:
  "ros_package_path example_index = Some [''/pkgs/a''] \<and>
   ros_package_path (load_from_ros_package_path example_discovery (Some []) example_index) =
     Some [''/pkgs/a''] \<and>
   ros_package_path (load_from_ros_package_path example_discovery (Some []) example_index) \<noteq>
     Some []"
  by (simp add: load_path effective_path_def example_index_value)

text \<open>
  Claim C3 as amended: an argument that is a non-empty list replaces the saved path;
  when the argument is absent or is the empty list the saved path is kept, and it is
  the path discovery runs on. A reload without argument after a reload with a
  non-empty list keeps that list.
\<close>

theorem override_semantics:
  "ros_package_path (load_from_ros_package_path D arg self) =
     (if arg = None \<or> arg = Some [] then ros_package_path self else arg) \<and>
   effective_path arg self =
     (if arg = None \<or> arg = Some [] then ros_package_path self else arg) \<and>
   dict_getitem (interfaces (load_from_ros_package_path D arg self)) n =
     find (\<lambda>r. interface.name r = n)
       (discovered_interfaces D
          (if arg = None \<or> arg = Some [] then ros_package_path self else arg)) \<and>
   ros_package_path
     (load_from_ros_package_path D None (load_from_ros_package_path D (Some (r # rs)) self)) =
     Some (r # rs)"
proof -
  have e: "effective_path arg self =
             (if arg = None \<or> arg = Some [] then ros_package_path self else arg)"
    by (auto simp: effective_path_def truthy_iff)
  have "dict_getitem (interfaces (load_from_ros_package_path D arg self)) n =
          find (\<lambda>r. interface.name r = n) (discovered_interfaces D (effective_path arg self))"
    by (simp add: dict_getitem_def load_interfaces_of)
  moreover have "ros_package_path (load_from_ros_package_path D arg self) =
                   effective_path arg self"
    by (rule load_path)
  moreover have "ros_package_path
      (load_from_ros_package_path D None (load_from_ros_package_path D (Some (r # rs)) self)) =
      Some (r # rs)"
    by (simp add: load_path effective_path_def)
  ultimately show ?thesis
    using e by simp
qed

theorem override_semantics_witness:
  "ros_package_path (load_from_ros_package_path example_discovery (Some [''/pkgs/b'']) example_index) =
     Some [''/pkgs/b''] \<and>
   ros_package_path (load_from_ros_package_path example_discovery None example_index) =
     Some [''/pkgs/a''] \<and>
   ros_package_path (load_from_ros_package_path example_discovery (Some []) example_index) =
     Some [''/pkgs/a''] \<and>
   ros_package_path
     (load_from_ros_package_path example_discovery None
        (load_from_ros_package_path example_discovery (Some [''/pkgs/b'']) example_index)) =
     Some [''/pkgs/b'']"
  using override_semantics [of example_discovery "Some [''/pkgs/b'']" example_index]
    override_semantics [of example_discovery None example_index]
    override_semantics [of example_discovery "Some []" example_index]
    override_semantics [of example_discovery _ example_index _ "''/pkgs/b''" "[]"]
  by (simp add: example_index_value)

subsection \<open>Reloading twice\<close>

text \<open>
  Claim C9: a reload that follows a load, with the same discovery and the saved path
  unchanged, leaves the saved path and the three dictionaries as the first load left
  them, whether the second call passes no argument or the same argument again. The
  result of a load depends on the dictionaries before it in no way: they are cleared
  first.
\<close>

theorem reload_idempotent:
  "same_index (load_from_ros_package_path D None (load_from_ros_package_path D arg self))
     (load_from_ros_package_path D arg self) \<and>
   same_index (load_from_ros_package_path D arg (load_from_ros_package_path D arg self))
     (load_from_ros_package_path D arg self) \<and>
   same_index
     (load_from_ros_package_path D arg
        (self\<lparr>interfaces := is, providers := ps, semantic_interfaces := ss\<rparr>))
     (load_from_ros_package_path D arg self)"
proof -
  have "effective_path arg (self\<lparr>interfaces := is, providers := ps, semantic_interfaces := ss\<rparr>)
          = effective_path arg self"
    by (simp add: effective_path_def)
  then show ?thesis
    by (simp add: load_same effective_path_after_load)
qed

theorem reload_idempotent_witness:
  "same_index (load_from_ros_package_path example_discovery None example_index) example_index \<and>
   interfaces (load_from_ros_package_path example_discovery None example_index) =
     [(''Minimal'', \<lparr>interface.name = ''Minimal''\<rparr>), (''Nav'', \<lparr>interface.name = ''Nav''\<rparr>)] \<and>
   providers (load_from_ros_package_path example_discovery None example_index) =
     [(''P1'', \<lparr>provider.name = ''P1'', implements = ''Minimal''\<rparr>),
      (''P2'', \<lparr>provider.name = ''P2'', implements = ''Minimal''\<rparr>)] \<and>
   semantic_interfaces (load_from_ros_package_path example_discovery None example_index) =
     [(''S1'', \<lparr>semantic_interface.name = ''S1'', redefines = ''Minimal''\<rparr>)] \<and>
   ros_package_path (load_from_ros_package_path example_discovery None example_index) =
     Some [''/pkgs/a'']"
proof -
  have "same_index (load_from_ros_package_path example_discovery None example_index)
          example_index"
    using reload_idempotent [of example_discovery "Some [''/pkgs/a'']"]
    by (simp add: example_index_def init_def)
  moreover from this have
    "interfaces (load_from_ros_package_path example_discovery None example_index) =
       interfaces example_index"
    "providers (load_from_ros_package_path example_discovery None example_index) =
       providers example_index"
    "semantic_interfaces (load_from_ros_package_path example_discovery None example_index) =
       semantic_interfaces example_index"
    "ros_package_path (load_from_ros_package_path example_discovery None example_index) =
       ros_package_path example_index"
    by (simp_all add: same_index_def)
  ultimately show ?thesis
    by (simp add: example_index_value)
qed

subsection \<open>Providers of an interface\<close>

text \<open>
  Claim C8 ends with: \<^verbatim>\<open>get_providers("NoSuchInterface")\<close> is empty on any
  loaded index. \<^verbatim>\<open>implements\<close> is free text, and the index does not check
  that the interface exists: after loading one provider file whose provider
  implements \<open>NoSuchInterface\<close>, the query returns that provider.
\<close>

theorem no_such_interface_counterexample:
  "list_provider_files dangling_discovery
     (build_file_index dangling_discovery
        (build_package_dict dangling_discovery (Some [''/pkgs/a'']))) = [''p1''] \<and>
   capability_provider_from_file_path dangling_discovery ''p1'' =
     \<lparr>provider.name = ''P1'', implements = ''NoSuchInterface''\<rparr> \<and>
   get_providers (init dangling_discovery (Some [''/pkgs/a''])) ''NoSuchInterface'' =
     [\<lparr>provider.name = ''P1'', implements = ''NoSuchInterface''\<rparr>] \<and>
   get_providers (init dangling_discovery (Some [''/pkgs/a''])) ''NoSuchInterface'' \<noteq> []"
  by (simp add: init_def load_from_ros_package_path_def dangling_discovery_def
      initialize_capabilities_def Let_def load_providers_Cons check_name_def print_def
      dict_contains_def get_providers_def dict_values_def)

text \<open>
  Claim C8 as amended: on every index, \<^verbatim>\<open>get_providers\<close> returns the
  providers of the index whose \<^verbatim>\<open>implements\<close> is the given string, and
  nothing else; it returns the empty list when no provider matches, so the query for
  \<open>NoSuchInterface\<close> is empty on every index none of whose providers implements
  that string. The function has no failing branch: it is total and returns a list.
\<close>

theorem get_providers_exact:
  "set (get_providers self interface_name) =
     {p \<in> set (dict_values (providers self)). implements p = interface_name} \<and>
   ((\<forall>p\<in>set (dict_values (providers self)). implements p \<noteq> interface_name) \<longrightarrow>
      get_providers self interface_name = [])"
  by (auto simp: get_providers_def filter_empty_conv)

theorem get_providers_exact_witness:
  "get_providers example_index ''NoSuchInterface'' = [] \<and>
   set (get_providers example_index ''Minimal'') =
     {\<lparr>provider.name = ''P1'', implements = ''Minimal''\<rparr>,
      \<lparr>provider.name = ''P2'', implements = ''Minimal''\<rparr>}"
proof -
  have h: "\<forall>p\<in>set (dict_values (providers example_index)). implements p \<noteq> ''NoSuchInterface''"
    by (simp add: example_index_value dict_values_def)
  have e: "get_providers example_index ''NoSuchInterface'' = []"
    using get_providers_exact [of example_index "''NoSuchInterface''"] h by blast
  have "set (get_providers example_index ''Minimal'') =
          {p \<in> set (dict_values (providers example_index)). implements p = ''Minimal''}"
    using get_providers_exact [of example_index "''Minimal''"] by blast
  also have "\<dots> = {\<lparr>provider.name = ''P1'', implements = ''Minimal''\<rparr>,
                     \<lparr>provider.name = ''P2'', implements = ''Minimal''\<rparr>}"
    by (auto simp: example_index_value dict_values_def)
  finally show ?thesis
    using e by simp
qed

subsection \<open>The unimplemented operations\<close>

text \<open>
  Claim C7 says that each of \<^verbatim>\<open>verify_tree\<close>,
  \<^verbatim>\<open>view_capabilities_as_dot\<close> and \<^verbatim>\<open>advertize_services\<close> raises
  \<^verbatim>\<open>NotImplementedError\<close> whenever it is called. The code writes
  \<^verbatim>\<open>raise NotImplemented\<close>, so on every index each of the three operations raises
  \<^verbatim>\<open>TypeError\<close>, and none of them raises \<^verbatim>\<open>NotImplementedError\<close>.
\<close>

theorem stubs_raise_TypeError:
  "verify_tree self = Inl TypeError \<and>
   view_capabilities_as_dot self with_errors = Inl TypeError \<and>
   advertize_services self = Inl TypeError \<and>
   verify_tree self \<noteq> Inl NotImplementedError \<and>
   view_capabilities_as_dot self with_errors \<noteq> Inl NotImplementedError \<and>
   advertize_services self \<noteq> Inl NotImplementedError"
  by (simp add: verify_tree_def view_capabilities_as_dot_def advertize_services_def)

end
